theory Spec2Isabelle
  imports Complex_Main
begin

section \<open>Link prediction with a relational graph network: the notebook's functions\<close>

text \<open>
  The notebook \<^verbatim>\<open>02-KG/rgcn-hetnet.ipynb\<close> defines an encoder (\<^verbatim>\<open>RGCN\<close>), a decoder
  (\<^verbatim>\<open>DistMult\<close>), the helpers \<^verbatim>\<open>get_metrics\<close>, \<^verbatim>\<open>get_link_labels\<close> and
  \<^verbatim>\<open>get_embeddings\<close>, and the steps \<^verbatim>\<open>train\<close> and \<^verbatim>\<open>validation\<close>.

  The tensors that the functions take (node features, embeddings, weights, labels) hold
  numbers, which are modelled as real numbers. The results of the float operations of the
  decoder and of the loss are floats: a number, an infinity or not-a-number. A float
  operation returns the exact result when this lies in the range of the float type and an
  infinity beyond it, and the sigmoid returns exactly 0 or 1 where its float operations
  overflow or lose the smaller summand. Rounding is not modelled otherwise. Exceptions
  are values of the type \<open>error\<close>.
\<close>

subsection \<open>Errors\<close>

datatype error = IndexError | RuntimeError | ValueError | KeyError

definition and_then :: "error + 'a \<Rightarrow> ('a \<Rightarrow> error + 'b) \<Rightarrow> error + 'b" where
  "and_then m f = (case m of Inl e \<Rightarrow> Inl e | Inr v \<Rightarrow> f v)"

subsection \<open>Floats\<close>

text \<open>
  A float: a number, plus or minus infinity, or not-a-number. The tensors of the notebook
  are of type float32, whose largest number is \<open>(2 - 1 / 2 ^ 23) * 2 ^ 127\<close>; an exact
  result beyond it overflows to an infinity.
\<close>

datatype pyfloat = Num real | PInf | NInf | NaN

definition float32_max :: real where
  "float32_max = (2 - 1 / 2 ^ 23) * 2 ^ 127"

definition overflow :: "real \<Rightarrow> pyfloat" where
  "overflow v = (if float32_max < v then PInf else if v < - float32_max then NInf else Num v)"

text \<open>An infinity times a number has the sign of the product; times 0 it is not-a-number.\<close>

definition signed_inf :: "real \<Rightarrow> pyfloat" where
  "signed_inf v = (if v = 0 then NaN else if 0 < v then PInf else NInf)"

fun fmul :: "pyfloat \<Rightarrow> pyfloat \<Rightarrow> pyfloat" where
  "fmul (Num a) (Num b) = overflow (a * b)"
| "fmul NaN _ = NaN"
| "fmul _ NaN = NaN"
| "fmul (Num a) PInf = signed_inf a"
| "fmul (Num a) NInf = signed_inf (- a)"
| "fmul PInf (Num b) = signed_inf b"
| "fmul NInf (Num b) = signed_inf (- b)"
| "fmul PInf PInf = PInf"
| "fmul PInf NInf = NInf"
| "fmul NInf PInf = NInf"
| "fmul NInf NInf = PInf"

text \<open>The sum of the two infinities is not-a-number.\<close>

fun fadd :: "pyfloat \<Rightarrow> pyfloat \<Rightarrow> pyfloat" where
  "fadd (Num a) (Num b) = overflow (a + b)"
| "fadd NaN _ = NaN"
| "fadd _ NaN = NaN"
| "fadd PInf NInf = NaN"
| "fadd NInf PInf = NaN"
| "fadd PInf _ = PInf"
| "fadd _ PInf = PInf"
| "fadd NInf _ = NInf"
| "fadd _ NInf = NInf"

definition sigmoid :: "real \<Rightarrow> real" where
  "sigmoid z = 1 / (1 + exp (- z))"

text \<open>
  \<^verbatim>\<open>torch.sigmoid\<close> computes \<open>1 / (1 + exp (- z))\<close> in float operations. An \<open>exp (- z)\<close>
  beyond the largest float is infinity, and the result is 0. An \<open>exp (- z)\<close> of at most
  \<open>1 / 2 ^ 24\<close>, half the distance from 1 to the next float, is lost in the sum
  \<open>1 + exp (- z)\<close>, and the result is 1.
\<close>

definition float_sigmoid :: "real \<Rightarrow> real" where
  "float_sigmoid z =
     (if float32_max < exp (- z) then 0 else if exp (- z) \<le> 1 / 2 ^ 24 then 1 else sigmoid z)"

fun torch_sigmoid :: "pyfloat \<Rightarrow> pyfloat" where
  "torch_sigmoid (Num z) = Num (float_sigmoid z)"
| "torch_sigmoid PInf = Num 1"
| "torch_sigmoid NInf = Num 0"
| "torch_sigmoid NaN = NaN"

subsection \<open>Tensors\<close>

text \<open>
  A two-dimensional tensor of shape \<open>(length rws, ncols)\<close>, of numbers (\<open>tensor2\<close>) or of
  floats. The column count is a field of its own because a tensor with no rows still has
  one, and broadcasting looks at it. An index tensor (\<^verbatim>\<open>edge_index\<close> of shape \<open>(2, E)\<close>) is
  the list of its columns, so \<^verbatim>\<open>edge_index[0, :]\<close> is \<open>map fst\<close> and \<^verbatim>\<open>edge_index[1, :]\<close> is
  \<open>map snd\<close>.
\<close>

record 'a tensor =
  ncols :: nat
  rws :: "'a list list"

type_synonym tensor2 = "real tensor"

definition nrows :: "'a tensor \<Rightarrow> nat" where
  "nrows t = length (rws t)"

definition wf_tensor2 :: "'a tensor \<Rightarrow> bool" where
  "wf_tensor2 t = list_all (\<lambda>r. length r = ncols t) (rws t)"

text \<open>The numbers of a tensor as the floats that the float operations take.\<close>

definition floats :: "tensor2 \<Rightarrow> pyfloat tensor" where
  "floats t = \<lparr>ncols = ncols t, rws = map (map Num) (rws t)\<rparr>"

text \<open>Indexing along the first dimension: an index \<open>i\<close> with \<open>-n \<le> i < 0\<close> counts from the end.\<close>

definition norm_index :: "nat \<Rightarrow> int \<Rightarrow> error + nat" where
  "norm_index n i =
     (if 0 \<le> i \<and> i < int n then Inr (nat i)
      else if - int n \<le> i \<and> i < 0 then Inr (nat (i + int n))
      else Inl IndexError)"

fun gather_rows :: "'a list \<Rightarrow> int list \<Rightarrow> error + 'a list" where
  "gather_rows rs [] = Inr []"
| "gather_rows rs (i # is) =
     (case norm_index (length rs) i of
        Inl e \<Rightarrow> Inl e
      | Inr j \<Rightarrow> (case gather_rows rs is of
                   Inl e \<Rightarrow> Inl e
                 | Inr out \<Rightarrow> Inr (rs ! j # out)))"

text \<open>\<^verbatim>\<open>t[idx]\<close> for a one-dimensional index tensor \<open>idx\<close>: the rows of \<open>t\<close> at \<open>idx\<close>.\<close>

definition index_rows :: "'a tensor \<Rightarrow> int list \<Rightarrow> error + 'a tensor" where
  "index_rows t idx =
     (case gather_rows (rws t) idx of
        Inl e \<Rightarrow> Inl e
      | Inr out \<Rightarrow> Inr \<lparr>ncols = ncols t, rws = out\<rparr>)"

text \<open>
  Elementwise float product with broadcasting: two sizes of a dimension go together when
  they are equal or one of them is 1; the dimension of size 1 is repeated.
\<close>

definition broadcast_dim :: "nat \<Rightarrow> nat \<Rightarrow> error + nat" where
  "broadcast_dim a b =
     (if a = b then Inr a
      else if a = 1 then Inr b
      else if b = 1 then Inr a
      else Inl RuntimeError)"

definition expand :: "nat \<Rightarrow> 'a list \<Rightarrow> 'a list" where
  "expand n xs = (if length xs = n then xs else replicate n (xs ! 0))"

definition tmul :: "pyfloat tensor \<Rightarrow> pyfloat tensor \<Rightarrow> error + pyfloat tensor" where
  "tmul a b =
     (case broadcast_dim (nrows a) (nrows b) of
        Inl e \<Rightarrow> Inl e
      | Inr m \<Rightarrow>
         (case broadcast_dim (ncols a) (ncols b) of
            Inl e \<Rightarrow> Inl e
          | Inr n \<Rightarrow>
             Inr \<lparr>ncols = n,
                  rws = map2 (\<lambda>r s. map2 fmul (expand n r) (expand n s))
                          (expand m (rws a)) (expand m (rws b))\<rparr>))"

text \<open>
  \<^verbatim>\<open>torch.sum(t, dim=1)\<close>: the float sum of each row. (The order in which the library adds
  the entries of a row matters only when a partial sum overflows.)
\<close>

definition sum_dim1 :: "pyfloat tensor \<Rightarrow> pyfloat list" where
  "sum_dim1 t = map (\<lambda>r. foldr fadd r (Num 0)) (rws t)"

subsection \<open>The model\<close>

text \<open>
  The edge types of a graph are a column of shape \<open>(M, 1)\<close>. \<^verbatim>\<open>torch.squeeze\<close> removes
  every dimension of size 1, so the column of one edge becomes a tensor of no dimension.
\<close>

datatype types = Scalar int | Vec "int list"

definition squeeze :: "int list \<Rightarrow> types" where
  "squeeze col = (case col of [t] \<Rightarrow> Scalar t | _ \<Rightarrow> Vec col)"

text \<open>
  A convolution layer (\<^verbatim>\<open>FastRGCNConv\<close>, of the graph library) with its current weights
  is the function it computes from node features, edges and edge types.
\<close>

type_synonym conv_layer = "tensor2 \<Rightarrow> (int \<times> int) list \<Rightarrow> types \<Rightarrow> error + tensor2"

record rgcn =
  num_rels :: nat
  conv1 :: conv_layer
  conv2 :: conv_layer
  w_rels :: tensor2

text \<open>
  \<^verbatim>\<open>
  def DistMult(embed, edge_index, edge_type, model):
      s = embed[edge_index[0, :]]
      o = embed[edge_index[1, :]]
      r = model.w_rels[edge_type]
      scores = torch.sum(s * r * o, dim=1)
      return torch.sigmoid(scores)
  \<close>
  with \<open>edge_type\<close> a one-dimensional tensor (\<open>emb\<close> and \<open>ob\<close> are the source's \<^verbatim>\<open>embed\<close> and \<^verbatim>\<open>o\<close>).
  The products and the sums are float operations.
\<close>

definition DistMult :: "tensor2 \<Rightarrow> (int \<times> int) list \<Rightarrow> int list \<Rightarrow> rgcn \<Rightarrow> error + pyfloat list" where
  "DistMult emb edge_index edge_type model =
     and_then (index_rows emb (map fst edge_index)) (\<lambda>s.
     and_then (index_rows emb (map snd edge_index)) (\<lambda>ob.
     and_then (index_rows (w_rels model) edge_type) (\<lambda>r.
     and_then (tmul (floats s) (floats r)) (\<lambda>sr.
     and_then (tmul sr (floats ob)) (\<lambda>sro.
     Inr (map torch_sigmoid (sum_dim1 sro)))))))"

text \<open>
  \<^verbatim>\<open>
  def get_link_labels(edge_index_pos_len, edge_index_neg_len):
      link_labels = torch.zeros(edge_index_pos_len + edge_index_neg_len).float().to(device)
      link_labels[:int(edge_index_pos_len)] = 1.
      return link_labels
  \<close>
  \<^verbatim>\<open>torch.zeros\<close> refuses a negative size; the stop of the slice \<^verbatim>\<open>[:k]\<close> counts from the
  end when \<open>k\<close> is negative and is clipped to the length.
\<close>

definition torch_zeros :: "int \<Rightarrow> error + real list" where
  "torch_zeros n = (if n < 0 then Inl RuntimeError else Inr (replicate (nat n) 0))"

definition slice_stop :: "nat \<Rightarrow> int \<Rightarrow> nat" where
  "slice_stop len k = (if k < 0 then nat (int len + k) else min (nat k) len)"

definition assign_upto :: "int \<Rightarrow> 'a \<Rightarrow> 'a list \<Rightarrow> 'a list" where
  "assign_upto k v xs =
     replicate (slice_stop (length xs) k) v @ drop (slice_stop (length xs) k) xs"

definition get_link_labels :: "int \<Rightarrow> int \<Rightarrow> error + real list" where
  "get_link_labels edge_index_pos_len edge_index_neg_len =
     and_then (torch_zeros (edge_index_pos_len + edge_index_neg_len)) (\<lambda>link_labels.
     Inr (assign_upto edge_index_pos_len 1 link_labels))"

subsection \<open>Data\<close>

text \<open>
  A graph or a sampled batch (\<^verbatim>\<open>Data\<close>): node features, edges, the column of edge types,
  and the masks of the training and the validation edges. The fields \<^verbatim>\<open>edge_attr\<close>,
  \<^verbatim>\<open>y\<close> and \<^verbatim>\<open>test_mask\<close> are read by no function of the notebook.
\<close>

record data =
  data_x :: tensor2
  data_edge_index :: "(int \<times> int) list"
  data_edge_type :: "int list"
  data_train_mask :: "bool list"
  data_val_mask :: "bool list"

subsection \<open>What the libraries provide\<close>

text \<open>
  What the notebook takes from its libraries is a parameter of the model: the layer
  constructor \<^verbatim>\<open>FastRGCNConv\<close>, the values that \<^verbatim>\<open>xavier_uniform_\<close> draws for the entries of
  a tensor, \<^verbatim>\<open>negative_sampling\<close>, the two metrics, the optimiser step (with the state
  \<open>'o\<close> of the optimiser) and the batches that iterating the sampler \<^verbatim>\<open>data_loader\<close>
  yields for a graph on its \<open>n\<close>-th pass. The definitions assume nothing of them; a statement
  that needs a property of one of them has it as a hypothesis.
\<close>

record 'o library =
  FastRGCNConv :: "nat \<Rightarrow> nat \<Rightarrow> nat \<Rightarrow> conv_layer"
  xavier_uniform :: "nat \<Rightarrow> nat \<Rightarrow> real"
  negative_sampling :: "(int \<times> int) list \<Rightarrow> nat \<Rightarrow> error + (int \<times> int) list"
  roc_auc_score :: "real list \<Rightarrow> real list \<Rightarrow> error + real"
  average_precision_score :: "real list \<Rightarrow> real list \<Rightarrow> error + real"
  optimizer_step :: "'o \<Rightarrow> rgcn \<Rightarrow> tensor2 \<Rightarrow> (int \<times> int) list \<Rightarrow> int list \<Rightarrow> real list \<Rightarrow> 'o \<times> rgcn"
  data_loader :: "data \<Rightarrow> nat \<Rightarrow> data list"

subsection \<open>Encoder\<close>

text \<open>
  \<^verbatim>\<open>
  def __init__(self, in_dim, h_dim, out_dim, num_rels):
      self.num_rels = num_rels
      self.conv1 = FastRGCNConv(in_dim, h_dim, num_rels)
      self.conv2 = FastRGCNConv(h_dim, out_dim, num_rels)
      self.relu = nn.ReLU()
      self.w_rels = nn.Parameter(torch.Tensor(num_rels, out_dim))
      nn.init.xavier_uniform_(self.w_rels, gain=nn.init.calculate_gain('relu'))
  \<close>
  The initialiser fills the tensor of shape \<open>(num_rels, out_dim)\<close> in place.
\<close>

definition RGCN_init :: "'o library \<Rightarrow> nat \<Rightarrow> nat \<Rightarrow> nat \<Rightarrow> nat \<Rightarrow> rgcn" where
  "RGCN_init lib in_dim h_dim out_dim n_rels =
     \<lparr>num_rels = n_rels,
      conv1 = FastRGCNConv lib in_dim h_dim n_rels,
      conv2 = FastRGCNConv lib h_dim out_dim n_rels,
      w_rels = \<lparr>ncols = out_dim,
                rws = map (\<lambda>i. map (xavier_uniform lib i) [0..<out_dim]) [0..<n_rels]\<rparr>\<rparr>"

definition relu :: "real \<Rightarrow> real" where
  "relu v = max 0 v"

definition map_tensor :: "(real list \<Rightarrow> real list) \<Rightarrow> tensor2 \<Rightarrow> tensor2" where
  "map_tensor f t = \<lparr>ncols = ncols t, rws = map f (rws t)\<rparr>"

text \<open>\<^verbatim>\<open>F.log_softmax(x2, dim=1)\<close>: in each row, the entry minus the logarithm of the sum of the exponentials of the row.\<close>

definition log_softmax_row :: "real list \<Rightarrow> real list" where
  "log_softmax_row r = map (\<lambda>v. v - ln (sum_list (map exp r))) r"

text \<open>
  \<^verbatim>\<open>
  def forward(self, x, edge_index, edge_type):
      x1 = self.conv1(x, edge_index, edge_type)
      x1 = self.relu(x1)
      x2 = self.conv2(x1, edge_index, edge_type)
      out = F.log_softmax(x2, dim=1)
      return out
  \<close>
\<close>

definition forward :: "rgcn \<Rightarrow> tensor2 \<Rightarrow> (int \<times> int) list \<Rightarrow> types \<Rightarrow> error + tensor2" where
  "forward model x edge_index edge_type =
     and_then (conv1 model x edge_index edge_type) (\<lambda>x1.
     and_then (conv2 model (map_tensor (map relu) x1) edge_index edge_type) (\<lambda>x2.
     Inr (map_tensor log_softmax_row x2)))"

subsection \<open>Loss\<close>

text \<open>
  \<^verbatim>\<open>F.binary_cross_entropy\<close> with its default reduction is the mean over the elements of
  \<open>- (y * log p + (1 - y) * log (1 - p))\<close>, each logarithm clamped from below at \<open>-100\<close>
  (the logarithm of 0 is minus infinity, so it is \<open>-100\<close> after the clamp); it refuses
  inputs of different sizes and every probability that is not a number of \<open>[0, 1]\<close>,
  not-a-number too. The mean of no element is not-a-number.
\<close>

fun unit_prob :: "pyfloat \<Rightarrow> bool" where
  "unit_prob (Num p) = (0 \<le> p \<and> p \<le> 1)"
| "unit_prob _ = False"

fun num_of :: "pyfloat \<Rightarrow> real" where
  "num_of (Num v) = v"
| "num_of _ = 0"

definition clamped_log :: "real \<Rightarrow> real" where
  "clamped_log p = (if p \<le> 0 then - 100 else max (ln p) (- 100))"

definition bce_term :: "real \<Rightarrow> real \<Rightarrow> real" where
  "bce_term p y = - (y * clamped_log p + (1 - y) * clamped_log (1 - p))"

definition binary_cross_entropy :: "pyfloat list \<Rightarrow> real list \<Rightarrow> error + pyfloat" where
  "binary_cross_entropy probs labels =
     (if length probs \<noteq> length labels then Inl ValueError
      else if \<not> list_all unit_prob probs then Inl RuntimeError
      else if probs = [] then Inr NaN
      else Inr (overflow (sum_list (map2 bce_term (map num_of probs) labels)
                          / real (length probs))))"

text \<open>
  \<^verbatim>\<open>
  def get_metrics(model, embed, edge_index, edge_type, labels):
      probs = DistMult(embed, edge_index, edge_type, model)
      loss = F.binary_cross_entropy(probs, labels)
      probs = probs.cpu().detach().numpy()
      labels = labels.cpu().detach().numpy()
      return loss, probs, labels
  \<close>
  The probabilities that the loss has accepted are numbers, and are returned as such.
\<close>

definition get_metrics ::
  "rgcn \<Rightarrow> tensor2 \<Rightarrow> (int \<times> int) list \<Rightarrow> int list \<Rightarrow> real list \<Rightarrow> error + pyfloat \<times> real list \<times> real list" where
  "get_metrics model emb edge_index edge_type labels =
     and_then (DistMult emb edge_index edge_type model) (\<lambda>probs.
     and_then (binary_cross_entropy probs labels) (\<lambda>loss.
     Inr (loss, map num_of probs, labels)))"

subsection \<open>Global state\<close>

text \<open>\<^verbatim>\<open>num_relations = edge_type.unique().size(0)\<close>\<close>

definition num_relations :: "int list \<Rightarrow> nat" where
  "num_relations edge_type = length (remdups edge_type)"

text \<open>
  The global variables that the steps read and write: \<^verbatim>\<open>model\<close>, \<^verbatim>\<open>optimizer\<close>,
  \<^verbatim>\<open>num_relations\<close>, the four lists of the epoch, the four lists of the means of the
  epochs, and the dictionary \<^verbatim>\<open>auroc_edge_type\<close>.
\<close>

record 'o globals =
  g_model :: rgcn
  g_optimizer :: 'o
  g_num_relations :: nat
  g_loss_epoch_train :: "pyfloat list"
  g_auroc_epoch_train :: "real list"
  g_loss_epoch_val :: "pyfloat list"
  g_auroc_epoch_val :: "real list"
  g_loss_train_total :: "pyfloat list"
  g_auroc_train_total :: "pyfloat list"
  g_loss_val_total :: "pyfloat list"
  g_auroc_val_total :: "pyfloat list"
  g_auroc_edge_type :: "nat \<rightharpoonup> real list"

text \<open>
  \<^verbatim>\<open>params = {'in_dim': 128, 'h_dim': 64, 'out_dim': 64, 'num_rels': num_relations, 'epochs': 10}\<close>
  and \<^verbatim>\<open>model = RGCN(params['in_dim'], params['h_dim'], params['out_dim'], params['num_rels'])\<close>.
\<close>

definition notebook_model :: "'o library \<Rightarrow> data \<Rightarrow> rgcn" where
  "notebook_model lib graph = RGCN_init lib 128 64 64 (num_relations (data_edge_type graph))"

text \<open>
  \<^verbatim>\<open>
  def get_embeddings(data):
      x = data.x
      edge_index_pos = data.edge_index
      edge_type = torch.squeeze(data.edge_type)
      embed = model(x, edge_index_pos, edge_type)
      return embed
  \<close>
\<close>

definition get_embeddings :: "rgcn \<Rightarrow> data \<Rightarrow> error + tensor2" where
  "get_embeddings model batch =
     forward model (data_x batch) (data_edge_index batch) (squeeze (data_edge_type batch))"

subsection \<open>The training and the validation step\<close>

text \<open>Indexing with a Boolean mask, which must be as long as the indexed dimension.\<close>

definition mask_select :: "'a list \<Rightarrow> bool list \<Rightarrow> error + 'a list" where
  "mask_select xs msk =
     (if length msk \<noteq> length xs then Inl IndexError
      else Inr (map fst (filter snd (zip xs msk))))"

text \<open>The slice \<^verbatim>\<open>t[:k]\<close> of a one-dimensional tensor; a tensor of no dimension has no slice.\<close>

definition slice_upto :: "types \<Rightarrow> int \<Rightarrow> error + int list" where
  "slice_upto t k =
     (case t of
        Scalar _ \<Rightarrow> Inl IndexError
      | Vec v \<Rightarrow> Inr (take (slice_stop (length v) k) v))"

text \<open>\<^verbatim>\<open>torch.cat\<close> of one-dimensional tensors; a tensor of no dimension cannot be concatenated.\<close>

definition cat_types :: "types \<Rightarrow> int list \<Rightarrow> error + int list" where
  "cat_types t v = (case t of Scalar _ \<Rightarrow> Inl RuntimeError | Vec u \<Rightarrow> Inr (u @ v))"

text \<open>
  The first statements of \<^verbatim>\<open>train\<close> and of \<^verbatim>\<open>validation\<close> are the same, on
  \<^verbatim>\<open>data.train_mask\<close> in the one and \<^verbatim>\<open>data.val_mask\<close> in the other:
  \<^verbatim>\<open>
  edge_index_train_pos = data.edge_index[:, data.train_mask]
  edge_type_train = torch.squeeze(data.edge_type[data.train_mask])
  edge_index_train_neg = negative_sampling(edge_index_train_pos,
                                           num_neg_samples=edge_index_train_pos.size(1))
  edge_index_train_total = torch.cat([edge_index_train_pos, edge_index_train_neg], dim=-1)
  edge_type_train_total = torch.cat([edge_type_train,
                                     edge_type_train[:edge_index_train_neg.size(1)]], dim=-1)
  link_labels = get_link_labels(edge_index_train_pos.size(1), edge_index_train_neg.size(1))
  \<close>
\<close>

definition link_edges ::
  "'o library \<Rightarrow> data \<Rightarrow> bool list \<Rightarrow> error + (int \<times> int) list \<times> int list \<times> real list" where
  "link_edges lib batch msk =
     and_then (mask_select (data_edge_index batch) msk) (\<lambda>edge_index_pos.
     and_then (mask_select (data_edge_type batch) msk) (\<lambda>col.
     and_then (negative_sampling lib edge_index_pos (length edge_index_pos)) (\<lambda>edge_index_neg.
     and_then (slice_upto (squeeze col) (int (length edge_index_neg))) (\<lambda>prefix.
     and_then (cat_types (squeeze col) prefix) (\<lambda>edge_type_total.
     and_then (get_link_labels (int (length edge_index_pos)) (int (length edge_index_neg))) (\<lambda>link_labels.
     Inr (edge_index_pos @ edge_index_neg, edge_type_total, link_labels)))))))"

text \<open>
  and so are the next ones:
  \<^verbatim>\<open>
  loss, probs, labels = get_metrics(model, embed, edge_index_train_total,
                                    edge_type_train_total, link_labels)
  auroc = roc_auc_score(labels, probs)
  auprc = average_precision_score(labels, probs)
  \<close>
\<close>

definition link_metrics ::
  "'o library \<Rightarrow> rgcn \<Rightarrow> data \<Rightarrow> bool list \<Rightarrow> tensor2
     \<Rightarrow> error + (pyfloat \<times> real) \<times> (int \<times> int) list \<times> int list \<times> real list \<times> real list" where
  "link_metrics lib model batch msk emb =
     and_then (link_edges lib batch msk) (\<lambda>(edge_index_total, edge_type_total, link_labels).
     and_then (get_metrics model emb edge_index_total edge_type_total link_labels) (\<lambda>(loss, probs, labels).
     and_then (roc_auc_score lib labels probs) (\<lambda>auroc.
     and_then (average_precision_score lib labels probs) (\<lambda>auprc.
     Inr ((loss, auroc), edge_index_total, edge_type_total, probs, labels)))))"

text \<open>
  \<^verbatim>\<open>train\<close> goes on with
  \<^verbatim>\<open>
  loss_epoch_train.append(loss.item())
  auroc_epoch_train.append(auroc)
  loss.backward()
  optimizer.step()
  \<close>
  A step returns the exception it raised, if any, and the global state it leaves.
\<close>

definition train :: "'o library \<Rightarrow> data \<Rightarrow> tensor2 \<Rightarrow> 'o globals \<Rightarrow> error option \<times> 'o globals" where
  "train lib batch emb g =
     (case link_metrics lib (g_model g) batch (data_train_mask batch) emb of
        Inl e \<Rightarrow> (Some e, g)
      | Inr ((loss, auroc), edge_index_total, edge_type_total, probs, labels) \<Rightarrow>
          (let (opt, model) = optimizer_step lib (g_optimizer g) (g_model g) emb
                                edge_index_total edge_type_total labels
           in (None, g\<lparr>g_loss_epoch_train := g_loss_epoch_train g @ [loss],
                       g_auroc_epoch_train := g_auroc_epoch_train g @ [auroc],
                       g_optimizer := opt,
                       g_model := model\<rparr>)))"

text \<open>
  \<^verbatim>\<open>validation\<close> (under \<^verbatim>\<open>torch.no_grad()\<close>) goes on with
  \<^verbatim>\<open>
  loss_epoch_val.append(loss.item())
  auroc_epoch_val.append(auroc)
  if not evaluate_rel:
      return
  for i in range(num_relations):
      mask = (edge_type_val_total == i)
      if mask.sum() == 0:
          continue
      probs_per_rel = probs[mask]
      labels_per_rel = labels[mask]
      auroc_per_rel = roc_auc_score(labels_per_rel, probs_per_rel)
      auroc_edge_type[i].append(auroc_per_rel)
  \<close>
\<close>

fun per_relation ::
  "'o library \<Rightarrow> int list \<Rightarrow> real list \<Rightarrow> real list \<Rightarrow> nat list \<Rightarrow> 'o globals
     \<Rightarrow> error option \<times> 'o globals" where
  "per_relation lib edge_type_total probs labels [] g = (None, g)"
| "per_relation lib edge_type_total probs labels (i # rest) g =
     (let msk = map (\<lambda>t. t = int i) edge_type_total in
      if length (filter id msk) = 0 then per_relation lib edge_type_total probs labels rest g
      else
        (case and_then (mask_select probs msk) (\<lambda>probs_per_rel.
              and_then (mask_select labels msk) (\<lambda>labels_per_rel.
              roc_auc_score lib labels_per_rel probs_per_rel)) of
           Inl e \<Rightarrow> (Some e, g)
         | Inr auroc_per_rel \<Rightarrow>
            (case g_auroc_edge_type g i of
               None \<Rightarrow> (Some KeyError, g)
             | Some values \<Rightarrow>
                 per_relation lib edge_type_total probs labels rest
                   (g\<lparr>g_auroc_edge_type := (g_auroc_edge_type g)(i \<mapsto> values @ [auroc_per_rel])\<rparr>))))"

definition validation ::
  "'o library \<Rightarrow> data \<Rightarrow> tensor2 \<Rightarrow> bool \<Rightarrow> 'o globals \<Rightarrow> error option \<times> 'o globals" where
  "validation lib batch emb evaluate_rel g =
     (case link_metrics lib (g_model g) batch (data_val_mask batch) emb of
        Inl e \<Rightarrow> (Some e, g)
      | Inr ((loss, auroc), edge_index_total, edge_type_total, probs, labels) \<Rightarrow>
          (let g1 = g\<lparr>g_loss_epoch_val := g_loss_epoch_val g @ [loss],
                      g_auroc_epoch_val := g_auroc_epoch_val g @ [auroc]\<rparr>
           in if \<not> evaluate_rel then (None, g1)
              else per_relation lib edge_type_total probs labels [0..<g_num_relations g] g1))"

subsection \<open>The training loop and the report\<close>

text \<open>
  \<^verbatim>\<open>np.mean\<close> of a list of floats: not-a-number on no element, when an element is
  not-a-number and when both infinities are elements; an infinity when it is an element.
\<close>

definition np_mean :: "pyfloat list \<Rightarrow> pyfloat" where
  "np_mean xs =
     (if xs = [] \<or> NaN \<in> set xs \<or> (PInf \<in> set xs \<and> NInf \<in> set xs) then NaN
      else if PInf \<in> set xs then PInf
      else if NInf \<in> set xs then NInf
      else Num (sum_list (map num_of xs) / real (length xs)))"

text \<open>
  \<^verbatim>\<open>
  for batch in data_loader:
      optimizer.zero_grad()
      model.train()
      embed = get_embeddings(batch)
      train(batch, embed)
      model.eval()
      validation(batch, embed)
  \<close>
  The gradients that \<^verbatim>\<open>zero_grad\<close> clears are part of the optimiser step of the model; the
  layers behave the same in training and in evaluation mode.
\<close>

fun epoch_batches :: "'o library \<Rightarrow> data list \<Rightarrow> 'o globals \<Rightarrow> error option \<times> 'o globals" where
  "epoch_batches lib [] g = (None, g)"
| "epoch_batches lib (batch # rest) g =
     (case get_embeddings (g_model g) batch of
        Inl e \<Rightarrow> (Some e, g)
      | Inr emb \<Rightarrow>
         (case train lib batch emb g of
            (Some e, g1) \<Rightarrow> (Some e, g1)
          | (None, g1) \<Rightarrow>
             (case validation lib batch emb False g1 of
                (Some e, g2) \<Rightarrow> (Some e, g2)
              | (None, g2) \<Rightarrow> epoch_batches lib rest g2)))"

text \<open>
  One round of \<^verbatim>\<open>for epoch in range(0, params['epochs'])\<close>:
  \<^verbatim>\<open>
  loss_epoch_train, loss_epoch_val = [], []
  auroc_epoch_train, auroc_epoch_val = [], []
  for batch in data_loader: ...
  loss_train_total.append(np.mean(loss_epoch_train))
  auroc_train_total.append(np.mean(auroc_epoch_train))
  loss_val_total.append(np.mean(loss_epoch_val))
  auroc_val_total.append(np.mean(auroc_epoch_val))
  \<close>
\<close>

definition run_epoch :: "'o library \<Rightarrow> data \<Rightarrow> nat \<Rightarrow> 'o globals \<Rightarrow> error option \<times> 'o globals" where
  "run_epoch lib graph epoch g =
     (case epoch_batches lib (data_loader lib graph epoch)
             (g\<lparr>g_loss_epoch_train := [], g_loss_epoch_val := [],
                 g_auroc_epoch_train := [], g_auroc_epoch_val := []\<rparr>) of
        (Some e, g1) \<Rightarrow> (Some e, g1)
      | (None, g1) \<Rightarrow>
          (None, g1\<lparr>g_loss_train_total := g_loss_train_total g1 @ [np_mean (g_loss_epoch_train g1)],
                     g_auroc_train_total := g_auroc_train_total g1 @ [np_mean (map Num (g_auroc_epoch_train g1))],
                     g_loss_val_total := g_loss_val_total g1 @ [np_mean (g_loss_epoch_val g1)],
                     g_auroc_val_total := g_auroc_val_total g1 @ [np_mean (map Num (g_auroc_epoch_val g1))]\<rparr>))"

fun training_loop :: "'o library \<Rightarrow> data \<Rightarrow> nat list \<Rightarrow> 'o globals \<Rightarrow> error option \<times> 'o globals" where
  "training_loop lib graph [] g = (None, g)"
| "training_loop lib graph (epoch # rest) g =
     (case run_epoch lib graph epoch g of
        (Some e, g1) \<Rightarrow> (Some e, g1)
      | (None, g1) \<Rightarrow> training_loop lib graph rest g1)"

text \<open>
  The last cell, run after the training loop (the pass over the sampler that follows the
  passes of the epochs):
  \<^verbatim>\<open>
  auroc_edge_type = {rel:[] for rel in range(num_relations)}
  for batch in data_loader:
      embed = get_embeddings(batch)
      validation(batch, embed, evaluate_rel=True)
  for rel, values in auroc_edge_type.items():
      print('auroc for relation type {}: {}'.format(edge_type_mapping[rel], "%.3f" % np.mean(values)))
  \<close>
  The report is the list of the means, one for each relation.
\<close>

fun report_batches :: "'o library \<Rightarrow> data list \<Rightarrow> 'o globals \<Rightarrow> error option \<times> 'o globals" where
  "report_batches lib [] g = (None, g)"
| "report_batches lib (batch # rest) g =
     (case get_embeddings (g_model g) batch of
        Inl e \<Rightarrow> (Some e, g)
      | Inr emb \<Rightarrow>
         (case validation lib batch emb True g of
            (Some e, g1) \<Rightarrow> (Some e, g1)
          | (None, g1) \<Rightarrow> report_batches lib rest g1))"

definition report :: "'o library \<Rightarrow> data \<Rightarrow> nat \<Rightarrow> 'o globals \<Rightarrow> error + pyfloat list" where
  "report lib graph pass g =
     (case report_batches lib (data_loader lib graph pass)
             (g\<lparr>g_auroc_edge_type := (\<lambda>rel. if rel < g_num_relations g then Some [] else None)\<rparr>) of
        (Some e, g1) \<Rightarrow> Inl e
      | (None, g1) \<Rightarrow>
          Inr (map (\<lambda>rel. case g_auroc_edge_type g1 rel of
                            None \<Rightarrow> NaN
                          | Some values \<Rightarrow> np_mean (map Num values))
                 [0..<g_num_relations g]))"

subsection \<open>The score in the words of the specification\<close>


subsection \<open>The encoder in the words of the specification\<close>


subsection \<open>Losses that are finite and not negative\<close>

text \<open>A recorded loss that is a number, neither an infinity nor not-a-number, between 0 and 100.\<close>

fun finite_nonneg :: "pyfloat \<Rightarrow> bool" where
  "finite_nonneg (Num v) = (0 \<le> v \<and> v \<le> 100)"
| "finite_nonneg _ = False"

section \<open>Concrete inputs\<close>

text \<open>A layer that returns the node features as they are, and a model of two relations over two dimensions.\<close>

definition plain_conv :: conv_layer where
  "plain_conv x edge_index edge_type = Inr x"

definition small_model :: rgcn where
  "small_model = \<lparr>num_rels = 2, conv1 = plain_conv, conv2 = plain_conv,
                   w_rels = \<lparr>ncols = 2, rws = [[0, 0], [1, - 1]]\<rparr>\<rparr>"

definition small_embedding :: tensor2 where
  "small_embedding = \<lparr>ncols = 2, rws = [[1, 2], [3, 4]]\<rparr>"



text \<open>
  A sampler of negative edges of the kind the library provides: it returns edges between
  the nodes of the batch that the batch does not have, no edge twice, at most as many as
  it is asked for; this one returns the first ones in row-major order. It finds the
  number of nodes as the largest node index plus one, which fails on no edges.
\<close>

definition first_absent_edges :: "(int \<times> int) list \<Rightarrow> nat \<Rightarrow> error + (int \<times> int) list" where
  "first_absent_edges pos k =
     (if pos = [] then Inl RuntimeError
      else let nodes = map int [0..<nat (foldr max (map fst pos @ map snd pos) 0) + 1]
           in Inr (take k (filter (\<lambda>e. e \<notin> set pos) (List.product nodes nodes))))"

text \<open>
  The area under the ROC curve as the probability that a positive example is scored above
  a negative one, ties counting one half; it is undefined, and the library raises, when
  the labels hold only one class.
\<close>

definition pairwise_auc :: "real list \<Rightarrow> real list \<Rightarrow> error + real" where
  "pairwise_auc labels probs =
     (if length labels \<noteq> length probs then Inl ValueError
      else let pos = map snd (filter (\<lambda>yp. fst yp = 1) (zip labels probs));
               neg = map snd (filter (\<lambda>yp. fst yp \<noteq> 1) (zip labels probs))
           in if pos = [] \<or> neg = [] then Inl ValueError
              else Inr (sum_list (map (\<lambda>(a, b). if b < a then 1 else if a = b then 1 / 2 else 0)
                                   (List.product pos neg))
                        / (real (length pos) * real (length neg))))"

text \<open>A sampler of subgraphs that yields one batch, the subgraph on the first \<open>n\<close> nodes.\<close>

definition induced_subgraph :: "nat \<Rightarrow> data \<Rightarrow> data" where
  "induced_subgraph n graph =
     (let keep = map (\<lambda>e. 0 \<le> fst e \<and> fst e < int n \<and> 0 \<le> snd e \<and> snd e < int n)
                   (data_edge_index graph)
      in \<lparr>data_x = \<lparr>ncols = ncols (data_x graph), rws = take n (rws (data_x graph))\<rparr>,
          data_edge_index = map fst (filter snd (zip (data_edge_index graph) keep)),
          data_edge_type = map fst (filter snd (zip (data_edge_type graph) keep)),
          data_train_mask = map fst (filter snd (zip (data_train_mask graph) keep)),
          data_val_mask = map fst (filter snd (zip (data_val_mask graph) keep))\<rparr>)"

text \<open>
  A library for the concrete runs: layers that return their input, weights initialised to
  0, the two functions above, an optimiser that counts its steps and halves the relation
  weights, and a sampler that yields the subgraph on the first two nodes. The steps compute
  the average precision and drop it; here it is 0.
\<close>

definition example_library :: "nat library" where
  "example_library =
     \<lparr>FastRGCNConv = (\<lambda>in_dim out_dim n_rels. plain_conv),
      xavier_uniform = (\<lambda>i j. 0),
      negative_sampling = first_absent_edges,
      roc_auc_score = pairwise_auc,
      average_precision_score = (\<lambda>labels probs. Inr 0),
      optimizer_step = (\<lambda>opt model emb edge_index edge_type labels.
                          (Suc opt, model\<lparr>w_rels := map_tensor (map (\<lambda>v. v / 2)) (w_rels model)\<rparr>)),
      data_loader = (\<lambda>graph pass. [induced_subgraph 2 graph])\<rparr>"

definition example_globals :: "nat globals" where
  "example_globals =
     \<lparr>g_model = small_model, g_optimizer = 0, g_num_relations = 2,
      g_loss_epoch_train = [], g_auroc_epoch_train = [],
      g_loss_epoch_val = [], g_auroc_epoch_val = [],
      g_loss_train_total = [], g_auroc_train_total = [],
      g_loss_val_total = [], g_auroc_val_total = [],
      g_auroc_edge_type = Map.empty\<rparr>"

text \<open>
  A batch of two nodes with three of the four possible edges, all of relation 0, all of
  them training and validation edges: one edge is absent.
\<close>

definition dense_batch :: data where
  "dense_batch =
     \<lparr>data_x = \<lparr>ncols = 2, rws = [[0, 0], [0, 0]]\<rparr>,
      data_edge_index = [(0, 0), (0, 1), (1, 0)],
      data_edge_type = [0, 0, 0],
      data_train_mask = [True, True, True],
      data_val_mask = [True, True, True]\<rparr>"

text \<open>A batch whose edges have different relation types; two of its three edges are training edges.\<close>

definition typed_batch :: data where
  "typed_batch =
     \<lparr>data_x = \<lparr>ncols = 2, rws = [[0, 0], [0, 0]]\<rparr>,
      data_edge_index = [(0, 1), (1, 0), (1, 1)],
      data_edge_type = [1, 0, 0],
      data_train_mask = [True, False, True],
      data_val_mask = [False, True, False]\<rparr>"

text \<open>
  The global state at the start of the report, with an empty list for each of the two
  relations, and a library whose metric returns 0 on no labels where the other raises.
\<close>

definition report_globals :: "nat globals" where
  "report_globals = example_globals\<lparr>g_auroc_edge_type := [0 \<mapsto> [], 1 \<mapsto> []]\<rparr>"

definition lenient_library :: "nat library" where
  "lenient_library =
     example_library\<lparr>roc_auc_score := (\<lambda>labels probs. if labels = [] then Inr 0
                                                         else pairwise_auc labels probs)\<rparr>"

text \<open>
  A graph of three nodes whose subgraph on the first two nodes is the batch of three edges
  above; its fourth edge, to the third node, is the only one of relation 1. And the
  embedding that the encoder of plain layers computes for that batch.
\<close>

definition example_graph :: data where
  "example_graph =
     \<lparr>data_x = \<lparr>ncols = 2, rws = [[0, 0], [0, 0], [0, 0]]\<rparr>,
      data_edge_index = [(0, 0), (0, 1), (1, 0), (1, 2)],
      data_edge_type = [0, 0, 0, 1],
      data_train_mask = [True, True, True, True],
      data_val_mask = [True, True, True, True]\<rparr>"

definition log_half_embedding :: tensor2 where
  "log_half_embedding = \<lparr>ncols = 2, rws = [[- ln 2, - ln 2], [- ln 2, - ln 2]]\<rparr>"

section \<open>Properties\<close>

subsection \<open>Labels\<close>

lemma get_link_labels_eq:
  assumes "0 \<le> p" and "0 \<le> n"
  shows "get_link_labels p n = Inr (replicate (nat p) 1 @ replicate (nat n) 0)"
proof -
  have z: "torch_zeros (p + n) = Inr (replicate (nat p + nat n) 0)"
    using assms by (simp add: torch_zeros_def nat_add_distrib)
  have s: "slice_stop (nat p + nat n) p = nat p"
    using assms by (simp add: slice_stop_def)
  show ?thesis
    by (simp add: get_link_labels_def and_then_def z assign_upto_def s)
qed

text \<open>
  C3. For lengths \<open>p \<ge> 0\<close> of positive and \<open>n \<ge> 0\<close> of negative edges, \<open>get_link_labels\<close>
  returns a vector of length \<open>p + n\<close> whose first \<open>p\<close> entries are 1 and whose other \<open>n\<close>
  entries are 0; it holds exactly \<open>p\<close> ones.
\<close>

theorem get_link_labels_ones_then_zeros:
  assumes "0 \<le> p" and "0 \<le> n"
  shows "\<exists>ls. get_link_labels p n = Inr ls
           \<and> int (length ls) = p + n
           \<and> (\<forall>i < nat p. ls ! i = 1)
           \<and> (\<forall>i. nat p \<le> i \<and> i < nat (p + n) \<longrightarrow> ls ! i = 0)
           \<and> int (length (filter (\<lambda>v. v = 1) ls)) = p"
proof -
  let ?ls = "replicate (nat p) (1::real) @ replicate (nat n) 0"
  have "get_link_labels p n = Inr ?ls"
    using assms by (rule get_link_labels_eq)
  moreover have "int (length ?ls) = p + n"
    using assms by simp
  moreover have "\<forall>i < nat p. ?ls ! i = 1"
    by (simp add: nth_append)
  moreover have "\<forall>i. nat p \<le> i \<and> i < nat (p + n) \<longrightarrow> ?ls ! i = 0"
    using assms by (auto simp: nth_append nat_add_distrib)
  moreover have "int (length (filter (\<lambda>v. v = 1) ?ls)) = p"
    using assms by simp
  ultimately show ?thesis by blast
qed

theorem get_link_labels_ones_then_zeros_witness:
  "(0::int) \<le> 2 \<and> (0::int) \<le> 1
   \<and> (\<exists>ls. get_link_labels 2 1 = Inr ls
           \<and> int (length ls) = 2 + 1
           \<and> (\<forall>i < nat 2. ls ! i = 1)
           \<and> (\<forall>i. nat 2 \<le> i \<and> i < nat (2 + 1) \<longrightarrow> ls ! i = 0)
           \<and> int (length (filter (\<lambda>v. v = 1) ls)) = 2)"
  using get_link_labels_ones_then_zeros [of 2 1] by simp

subsection \<open>Decoder\<close>







lemma overflow_in_range:
  assumes "\<bar>v\<bar> \<le> float32_max"
  shows "overflow v = Num v"
  using assms by (auto simp: overflow_def)

















subsection \<open>Encoder\<close>







subsection \<open>Relation weights\<close>

text \<open>
  C8. The number of relations is the number of distinct values of the loaded edge-type
  vector, and the relation weights \<open>w_rels\<close> of a model created for that number have one row
  for each of them and \<open>out_dim\<close> columns; the notebook's model has \<open>num_relations\<close> rows of
  64 columns.
\<close>

theorem w_rels_shape_from_edge_types:
  "num_relations edge_type = card (set edge_type)
   \<and> num_rels (RGCN_init lib in_dim h_dim out_dim (num_relations edge_type)) = card (set edge_type)
   \<and> nrows (w_rels (RGCN_init lib in_dim h_dim out_dim (num_relations edge_type))) = card (set edge_type)
   \<and> ncols (w_rels (RGCN_init lib in_dim h_dim out_dim (num_relations edge_type))) = out_dim
   \<and> wf_tensor2 (w_rels (RGCN_init lib in_dim h_dim out_dim (num_relations edge_type)))
   \<and> nrows (w_rels (notebook_model lib graph)) = card (set (data_edge_type graph))
   \<and> ncols (w_rels (notebook_model lib graph)) = 64"
proof -
  have n: "num_relations edge_type = card (set edge_type)" for edge_type
    by (simp add: num_relations_def length_remdups_card_conv)
  have rows: "nrows (w_rels (RGCN_init lib i h out k)) = k"
    and cols: "ncols (w_rels (RGCN_init lib i h out k)) = out"
    and rels: "num_rels (RGCN_init lib i h out k) = k" for i h out k
    by (simp_all add: RGCN_init_def nrows_def)
  have wf: "wf_tensor2 (w_rels (RGCN_init lib i h out k))" for i h out k
    by (simp add: RGCN_init_def wf_tensor2_def list_all_iff)
  show ?thesis
    unfolding notebook_model_def rows cols rels n using wf by simp
qed

subsection \<open>Positive and negative edges of a step\<close>

lemma length_filter_zip_snd:
  assumes "length xs = length msk"
  shows "length (filter snd (zip xs msk)) = length (filter id msk)"
  using assms by (induction xs msk rule: list_induct2) simp_all

lemma mask_select_length:
  assumes "mask_select xs msk = Inr ys"
  shows "length ys = length (filter id msk)"
  using assms by (auto simp: mask_select_def length_filter_zip_snd split: if_splits)

lemma slice_stop_nat: "slice_stop len (int k) = min k len"
  by (simp add: slice_stop_def)

lemma squeeze_Vec: "squeeze col = Vec v \<longleftrightarrow> v = col \<and> length col \<noteq> 1"
  by (cases col; cases "tl col") (auto simp: squeeze_def)

lemma squeeze_Scalar: "squeeze col = Scalar t \<longleftrightarrow> col = [t]"
  by (cases col; cases "tl col") (auto simp: squeeze_def)

lemma get_link_labels_nat:
  "get_link_labels (int p) (int n) = Inr (replicate p 1 @ replicate n 0)"
  using get_link_labels_eq [of "int p" "int n"] by simp

lemma link_edges_Inr:
  assumes "link_edges lib batch msk = Inr (edge_index_total, edge_type_total, link_labels)"
  shows "\<exists>pos et_pos neg.
           mask_select (data_edge_index batch) msk = Inr pos
         \<and> mask_select (data_edge_type batch) msk = Inr et_pos
         \<and> negative_sampling lib pos (length pos) = Inr neg
         \<and> length et_pos = length pos \<and> length pos \<noteq> 1
         \<and> edge_index_total = pos @ neg
         \<and> edge_type_total = et_pos @ take (length neg) et_pos
         \<and> link_labels = replicate (length pos) 1 @ replicate (length neg) 0"
proof -
  from assms obtain pos where pos: "mask_select (data_edge_index batch) msk = Inr pos"
    by (auto simp: link_edges_def and_then_def split: sum.splits)
  from assms pos obtain col where col: "mask_select (data_edge_type batch) msk = Inr col"
    by (auto simp: link_edges_def and_then_def split: sum.splits)
  from assms pos col obtain neg where neg: "negative_sampling lib pos (length pos) = Inr neg"
    by (auto simp: link_edges_def and_then_def split: sum.splits)
  have len: "length col = length pos"
    using mask_select_length [OF pos] mask_select_length [OF col] by simp
  from assms pos col neg obtain pre where pre: "slice_upto (squeeze col) (int (length neg)) = Inr pre"
    by (auto simp: link_edges_def and_then_def split: sum.splits)
  then obtain v where v: "squeeze col = Vec v"
    by (auto simp: slice_upto_def split: types.splits)
  then have vc: "v = col" and ne: "length col \<noteq> 1"
    by (simp_all add: squeeze_Vec)
  have pre': "pre = take (length neg) col"
    using pre v vc by (auto simp: slice_upto_def slice_stop_nat min_def)
  have "link_edges lib batch msk
        = Inr (pos @ neg, col @ take (length neg) col, replicate (length pos) 1 @ replicate (length neg) 0)"
    using pos col neg pre v vc pre'
    by (simp add: link_edges_def and_then_def cat_types_def get_link_labels_nat)
  with assms have "edge_index_total = pos @ neg"
    and "edge_type_total = col @ take (length neg) col"
    and "link_labels = replicate (length pos) 1 @ replicate (length neg) 0"
    by simp_all
  with pos col neg len ne show ?thesis by auto
qed


lemma link_edges_returns:
  assumes "length msk = length (data_edge_index batch)"
    and "length msk = length (data_edge_type batch)"
    and "mask_select (data_edge_index batch) msk = Inr pos"
    and "negative_sampling lib pos (length pos) = Inr neg"
    and "length pos \<noteq> 1"
  shows "\<exists>et_pos. mask_select (data_edge_type batch) msk = Inr et_pos
           \<and> link_edges lib batch msk
             = Inr (pos @ neg, et_pos @ take (length neg) et_pos,
                    replicate (length pos) 1 @ replicate (length neg) 0)"
proof -
  obtain col where col: "mask_select (data_edge_type batch) msk = Inr col"
    using assms(2) by (simp add: mask_select_def)
  have len: "length col = length pos"
    using mask_select_length [OF assms(3)] mask_select_length [OF col] by simp
  then have v: "squeeze col = Vec col"
    using assms(5) by (simp add: squeeze_Vec)
  have "link_edges lib batch msk
        = Inr (pos @ neg, col @ take (length neg) col, replicate (length pos) 1 @ replicate (length neg) 0)"
    using assms(3,4) col v
    by (auto simp: link_edges_def and_then_def cat_types_def get_link_labels_nat slice_upto_def
        slice_stop_nat min_def)
  with col show ?thesis by blast
qed

lemma first_absent_edges_dense:
  "first_absent_edges [(0, 0), (0, 1), (1, 0)] (Suc (Suc (Suc 0))) = Inr [(1, 1)]"
  by (simp add: first_absent_edges_def upt_conv_Cons List.product_def)

lemma link_edges_dense_batch:
  "link_edges example_library dense_batch [True, True, True]
   = Inr ([(0, 0), (0, 1), (1, 0), (1, 1)], [0, 0, 0, 0], [1, 1, 1, 0])"
  by (simp add: link_edges_def and_then_def example_library_def dense_batch_def mask_select_def
      first_absent_edges_dense squeeze_def slice_upto_def slice_stop_def cat_types_def
      get_link_labels_def torch_zeros_def assign_upto_def eval_nat_numeral)

lemma DistMult_dense_batch:
  "DistMult small_embedding [(0, 0), (0, 1), (1, 0), (1, 1)] [0, 0, 0, 0] small_model
   = Inr [Num (1 / 2), Num (1 / 2), Num (1 / 2), Num (1 / 2)]"
  by (simp add: DistMult_def and_then_def index_rows_def norm_index_def small_embedding_def
      small_model_def floats_def tmul_def broadcast_dim_def nrows_def expand_def sum_dim1_def
      sigmoid_def float_sigmoid_def overflow_def float32_max_def)

lemma clamped_log_half: "clamped_log (1 / 2) = - ln 2"
proof -
  have "ln (2::real) \<le> 2 - 1"
    by (rule ln_le_minus_one) simp
  moreover have "ln (1 / 2 :: real) = - ln 2"
    by (simp add: ln_div)
  ultimately show ?thesis
    by (simp add: clamped_log_def)
qed

lemma bce_term_half: "bce_term (1 / 2) y = ln 2"
proof -
  have "(1::real) - 1 / 2 = 1 / 2" by simp
  then show ?thesis
    by (simp add: bce_term_def clamped_log_half algebra_simps)
qed

lemma overflow_ln_2: "overflow (ln 2) = Num (ln 2)"
proof -
  have "ln (2::real) \<le> 2 - 1"
    by (rule ln_le_minus_one) simp
  moreover have "0 \<le> ln (2::real)"
    by simp
  moreover have "1 \<le> float32_max"
    by (simp add: float32_max_def)
  ultimately show ?thesis
    by (intro overflow_in_range) simp
qed

lemma get_metrics_dense_batch:
  "get_metrics small_model small_embedding [(0, 0), (0, 1), (1, 0), (1, 1)] [0, 0, 0, 0] [1, 1, 1, 0]
   = Inr (Num (ln 2), [1 / 2, 1 / 2, 1 / 2, 1 / 2], [1, 1, 1, 0])"
  by (simp add: get_metrics_def and_then_def DistMult_dense_batch binary_cross_entropy_def
      bce_term_half overflow_ln_2)

lemma pairwise_auc_dense_batch:
  "pairwise_auc [1, 1, 1, 0] [1 / 2, 1 / 2, 1 / 2, 1 / 2] = Inr (1 / 2)"
  by (simp add: pairwise_auc_def List.product_def)

lemma link_metrics_dense_batch:
  "link_metrics example_library small_model dense_batch [True, True, True] small_embedding
   = Inr ((Num (ln 2), 1 / 2), [(0, 0), (0, 1), (1, 0), (1, 1)], [0, 0, 0, 0],
          [1 / 2, 1 / 2, 1 / 2, 1 / 2], [1, 1, 1, 0])"
proof -
  have roc: "roc_auc_score example_library = pairwise_auc"
    and ap: "average_precision_score example_library [1, 1, 1, 0] [1 / 2, 1 / 2, 1 / 2, 1 / 2] = Inr 0"
    by (simp_all add: example_library_def)
  show ?thesis
    by (simp add: link_metrics_def and_then_def link_edges_dense_batch get_metrics_dense_batch
        roc ap pairwise_auc_dense_batch)
qed

lemma train_dense_batch:
  "fst (train example_library dense_batch small_embedding example_globals) = None
   \<and> g_loss_epoch_train (snd (train example_library dense_batch small_embedding example_globals))
       = [Num (ln 2)]"
proof -
  have m: "g_model example_globals = small_model" and t: "data_train_mask dense_batch = [True, True, True]"
    by (simp_all add: example_globals_def dense_batch_def)
  show ?thesis
    by (simp add: train_def m t link_metrics_dense_batch split: prod.splits)
       (simp add: example_globals_def)
qed

lemma validation_dense_batch:
  "fst (validation example_library dense_batch small_embedding False example_globals) = None
   \<and> g_loss_epoch_val (snd (validation example_library dense_batch small_embedding False example_globals))
       = [Num (ln 2)]"
proof -
  have m: "g_model example_globals = small_model" and t: "data_val_mask dense_batch = [True, True, True]"
    by (simp_all add: example_globals_def dense_batch_def)
  show ?thesis
    by (simp add: validation_def m t link_metrics_dense_batch)
       (simp add: example_globals_def)
qed


text \<open>
  C4, as stated, fails: the sampler returns edges that the batch does not have, and a
  batch can have fewer of them than it has positive edges. On the batch of two nodes with
  three edges the mask selects three positive edges, the sampler is asked for three and
  returns the one absent edge; the training step and the validation step run to their
  end on three positive edges and one negative edge.
\<close>

theorem link_edges_fewer_negatives:
  "mask_select (data_edge_index dense_batch) (data_train_mask dense_batch)
     = Inr [(0, 0), (0, 1), (1, 0)]
   \<and> negative_sampling example_library [(0, 0), (0, 1), (1, 0)] (length [(0, 0), (0, 1), (1, 0 :: int)])
     = Inr [(1, 1)]
   \<and> link_edges example_library dense_batch (data_train_mask dense_batch)
     = Inr ([(0, 0), (0, 1), (1, 0)] @ [(1, 1)], [0, 0, 0, 0], [1, 1, 1, 0])
   \<and> link_edges example_library dense_batch (data_val_mask dense_batch)
     = Inr ([(0, 0), (0, 1), (1, 0)] @ [(1, 1)], [0, 0, 0, 0], [1, 1, 1, 0])
   \<and> length [(1 :: int, 1 :: int)] \<noteq> length [(0 :: int, 0 :: int), (0, 1), (1, 0)]
   \<and> fst (train example_library dense_batch small_embedding example_globals) = None
   \<and> fst (validation example_library dense_batch small_embedding False example_globals) = None"
proof -
  have t: "data_train_mask dense_batch = [True, True, True]"
    and v: "data_val_mask dense_batch = [True, True, True]"
    by (simp_all add: dense_batch_def)
  have "mask_select (data_edge_index dense_batch) (data_train_mask dense_batch)
     = Inr [(0, 0), (0, 1), (1, 0)]"
    by (simp add: mask_select_def dense_batch_def)
  moreover have "negative_sampling example_library [(0, 0), (0, 1), (1, 0)]
       (length [(0, 0), (0, 1), (1, 0 :: int)]) = Inr [(1, 1)]"
    by (simp add: example_library_def first_absent_edges_dense)
  moreover note link_edges_dense_batch [folded t] link_edges_dense_batch [folded v]
    train_dense_batch [THEN conjunct1] validation_dense_batch [THEN conjunct1]
  ultimately show ?thesis by simp
qed

text \<open>
  C4, amended. In every training step and in every validation step the sampler is asked
  for as many negative edges as the mask selects positive edges, and the concatenated
  edge set is the positive edges followed by the edges that the sampler returned, with
  one label 1 for each positive and one label 0 for each returned edge; it holds as many
  negative as positive edges when the sampler returns as many edges as it was asked for.
\<close>

theorem link_edges_asks_for_as_many_negatives:
  assumes "link_edges lib batch msk = Inr (edge_index_total, edge_type_total, link_labels)"
  shows "\<exists>pos neg.
           mask_select (data_edge_index batch) msk = Inr pos
         \<and> negative_sampling lib pos (length pos) = Inr neg
         \<and> edge_index_total = pos @ neg
         \<and> link_labels = replicate (length pos) 1 @ replicate (length neg) 0
         \<and> length (filter (\<lambda>y. y = 1) link_labels) = length pos
         \<and> length (filter (\<lambda>y. y = 0) link_labels) = length neg
         \<and> (length neg = length pos \<longrightarrow> length edge_index_total = 2 * length pos)"
proof -
  from link_edges_Inr [OF assms] obtain pos neg where
    pos: "mask_select (data_edge_index batch) msk = Inr pos"
    and neg: "negative_sampling lib pos (length pos) = Inr neg"
    and total: "edge_index_total = pos @ neg"
    and labels: "link_labels = replicate (length pos) 1 @ replicate (length neg) 0"
    by blast
  have "length (filter (\<lambda>y. y = 1) link_labels) = length pos"
    and "length (filter (\<lambda>y. y = 0) link_labels) = length neg"
    unfolding labels by simp_all
  with pos neg total labels show ?thesis by auto
qed

theorem link_edges_asks_for_as_many_negatives_witness:
  "link_edges example_library dense_batch [True, True, True]
     = Inr ([(0, 0), (0, 1), (1, 0), (1, 1)], [0, 0, 0, 0], [1, 1, 1, 0])
   \<and> (\<exists>pos neg.
           mask_select (data_edge_index dense_batch) [True, True, True] = Inr pos
         \<and> negative_sampling example_library pos (length pos) = Inr neg
         \<and> [(0, 0), (0, 1), (1, 0), (1, 1)] = pos @ neg
         \<and> length (filter (\<lambda>y. y = 1) [1, 1, 1, 0 :: real]) = length pos
         \<and> length (filter (\<lambda>y. y = 0) [1, 1, 1, 0 :: real]) = length neg)"
proof -
  from link_edges_asks_for_as_many_negatives [OF link_edges_dense_batch]
  obtain pos neg where
    "mask_select (data_edge_index dense_batch) [True, True, True] = Inr pos"
    "negative_sampling example_library pos (length pos) = Inr neg"
    "[(0, 0), (0, 1), (1, 0), (1, 1)] = pos @ neg"
    "length (filter (\<lambda>y. y = 1) [1, 1, 1, 0 :: real]) = length pos"
    "length (filter (\<lambda>y. y = 0) [1, 1, 1, 0 :: real]) = length neg"
    by blast
  with link_edges_dense_batch show ?thesis by blast
qed


text \<open>
  C10. In the training and in the validation step the relation types of the \<open>k\<close> sampled
  negative edges are the types of the first \<open>k\<close> positive edges: the \<open>j\<close>-th negative edge is
  scored under the type of the \<open>j\<close>-th positive edge. The types do not depend on the
  negative edges themselves: any sampler that returns as many edges gives the same types.
\<close>

theorem negative_edge_types_are_positive_prefix:
  assumes "link_edges lib batch msk = Inr (edge_index_total, edge_type_total, link_labels)"
  shows "\<exists>pos et_pos neg.
           mask_select (data_edge_index batch) msk = Inr pos
         \<and> mask_select (data_edge_type batch) msk = Inr et_pos
         \<and> negative_sampling lib pos (length pos) = Inr neg
         \<and> edge_index_total = pos @ neg
         \<and> edge_type_total = et_pos @ take (length neg) et_pos
         \<and> (\<forall>j. j < length neg \<and> j < length pos \<longrightarrow>
                edge_index_total ! (length pos + j) = neg ! j
              \<and> edge_type_total ! (length pos + j) = et_pos ! j)
         \<and> (\<forall>lib' total' types' labels'.
                link_edges (lib' :: 'o library) batch msk = Inr (total', types', labels')
              \<and> length total' = length edge_index_total \<longrightarrow> types' = edge_type_total)"
proof -
  from link_edges_Inr [OF assms] obtain pos et_pos neg where
    pos: "mask_select (data_edge_index batch) msk = Inr pos"
    and et: "mask_select (data_edge_type batch) msk = Inr et_pos"
    and neg: "negative_sampling lib pos (length pos) = Inr neg"
    and len: "length et_pos = length pos"
    and total: "edge_index_total = pos @ neg"
    and types: "edge_type_total = et_pos @ take (length neg) et_pos"
    by blast
  have nth: "edge_index_total ! (length pos + j) = neg ! j
           \<and> edge_type_total ! (length pos + j) = et_pos ! j"
    if "j < length neg \<and> j < length pos" for j
    using that len unfolding total types by (simp add: nth_append)
  have same: "types' = edge_type_total"
    if "link_edges (lib' :: 'o library) batch msk = Inr (total', types', labels')
        \<and> length total' = length edge_index_total" for lib' total' types' labels'
  proof -
    from that have l: "link_edges lib' batch msk = Inr (total', types', labels')"
      and n: "length total' = length edge_index_total" by simp_all
    from link_edges_Inr [OF l] pos et obtain neg' where
      "total' = pos @ neg'" and "types' = et_pos @ take (length neg') et_pos"
      by auto
    with n total types show ?thesis by simp
  qed
  from pos et neg total types nth same show ?thesis by blast
qed

lemma first_absent_edges_typed:
  "first_absent_edges [(0, 1), (1, 1)] (Suc (Suc 0)) = Inr [(0, 0), (1, 0)]"
  by (simp add: first_absent_edges_def upt_conv_Cons List.product_def)

lemma link_edges_typed_batch:
  "link_edges example_library typed_batch [True, False, True]
   = Inr ([(0, 1), (1, 1), (0, 0), (1, 0)], [1, 0, 1, 0], [1, 1, 0, 0])"
  by (simp add: link_edges_def and_then_def example_library_def typed_batch_def mask_select_def
      first_absent_edges_typed squeeze_def slice_upto_def slice_stop_def cat_types_def
      get_link_labels_def torch_zeros_def assign_upto_def eval_nat_numeral)

theorem negative_edge_types_are_positive_prefix_witness:
  "link_edges example_library typed_batch [True, False, True]
     = Inr ([(0, 1), (1, 1), (0, 0), (1, 0)], [1, 0, 1, 0], [1, 1, 0, 0])
   \<and> (\<exists>pos et_pos neg.
           mask_select (data_edge_index typed_batch) [True, False, True] = Inr pos
         \<and> mask_select (data_edge_type typed_batch) [True, False, True] = Inr et_pos
         \<and> negative_sampling example_library pos (length pos) = Inr neg
         \<and> [(0, 1), (1, 1), (0, 0), (1, 0)] = pos @ neg
         \<and> [1, 0, 1, 0] = et_pos @ take (length neg) et_pos)"
proof -
  from negative_edge_types_are_positive_prefix [OF link_edges_typed_batch]
  obtain pos et_pos neg where
    "mask_select (data_edge_index typed_batch) [True, False, True] = Inr pos"
    "mask_select (data_edge_type typed_batch) [True, False, True] = Inr et_pos"
    "negative_sampling example_library pos (length pos) = Inr neg"
    "[(0, 1), (1, 1), (0, 0), (1, 0)] = pos @ neg"
    "[1, 0, 1, 0] = et_pos @ take (length neg) et_pos"
    by blast
  with link_edges_typed_batch show ?thesis by blast
qed

subsection \<open>Metrics by relation\<close>

lemma mask_select_nonempty:
  assumes "mask_select xs msk = Inr ys" and "length (filter id msk) \<noteq> 0"
  shows "ys \<noteq> []"
  using mask_select_length [OF assms(1)] assms(2) by auto

lemma no_edge_of_type:
  "length (filter id (map (\<lambda>t. t = int i) edge_type_total)) = 0 \<longleftrightarrow> int i \<notin> set edge_type_total"
  by (auto simp: filter_empty_conv)

lemma per_relation_Cons:
  "per_relation lib edge_type_total probs labels (i # rest) g =
     (if int i \<notin> set edge_type_total then per_relation lib edge_type_total probs labels rest g
      else
        (case and_then (mask_select probs (map (\<lambda>t. t = int i) edge_type_total)) (\<lambda>probs_per_rel.
              and_then (mask_select labels (map (\<lambda>t. t = int i) edge_type_total)) (\<lambda>labels_per_rel.
              roc_auc_score lib labels_per_rel probs_per_rel)) of
           Inl e \<Rightarrow> (Some e, g)
         | Inr auroc_per_rel \<Rightarrow>
            (case g_auroc_edge_type g i of
               None \<Rightarrow> (Some KeyError, g)
             | Some values \<Rightarrow>
                 per_relation lib edge_type_total probs labels rest
                   (g\<lparr>g_auroc_edge_type := (g_auroc_edge_type g)(i \<mapsto> values @ [auroc_per_rel])\<rparr>))))"
  unfolding per_relation.simps Let_def no_edge_of_type by (rule refl)

declare per_relation.simps(2) [simp del]

lemma per_relation_skip:
  assumes "int i \<notin> set edge_type_total"
  shows "per_relation lib edge_type_total probs labels (i # rest) g
         = per_relation lib edge_type_total probs labels rest g"
  using assms by (simp add: per_relation_Cons)

lemma per_relation_nonempty_only:
  assumes "\<forall>ls ps. ls \<noteq> [] \<and> ps \<noteq> [] \<longrightarrow> roc_auc_score lib ls ps = roc_auc_score lib' ls ps"
  shows "per_relation lib edge_type_total probs labels rels g
         = per_relation lib' edge_type_total probs labels rels g"
proof (induction rels arbitrary: g)
  case Nil
  show ?case by simp
next
  case (Cons i rest)
  let ?m = "map (\<lambda>t. t = int i) edge_type_total"
  show ?case
  proof (cases "int i \<in> set edge_type_total")
    case False
    then show ?thesis by (simp add: per_relation_skip Cons.IH)
  next
    case True
    then have some: "length (filter id ?m) \<noteq> 0"
      by (simp only: no_edge_of_type not_not)
    have eq: "and_then (mask_select probs ?m) (\<lambda>probs_per_rel.
            and_then (mask_select labels ?m) (\<lambda>labels_per_rel.
            roc_auc_score lib labels_per_rel probs_per_rel))
        = and_then (mask_select probs ?m) (\<lambda>probs_per_rel.
            and_then (mask_select labels ?m) (\<lambda>labels_per_rel.
            roc_auc_score lib' labels_per_rel probs_per_rel))"
    proof (cases "mask_select probs ?m")
      case (Inl e)
      then show ?thesis by (simp add: and_then_def)
    next
      case ps: (Inr ps)
      show ?thesis
      proof (cases "mask_select labels ?m")
        case (Inl e)
        then show ?thesis using ps by (simp add: and_then_def)
      next
        case ls: (Inr ls)
        have "ps \<noteq> []" and "ls \<noteq> []"
          using mask_select_nonempty [OF ps some] mask_select_nonempty [OF ls some] by simp_all
        then have "roc_auc_score lib ls ps = roc_auc_score lib' ls ps"
          using assms by simp
        then show ?thesis using ps ls by (simp add: and_then_def)
      qed
    qed
    show ?thesis
      unfolding per_relation_Cons eq Cons.IH by (rule refl)
  qed
qed

lemma per_relation_entry_unchanged:
  assumes "int i \<notin> set edge_type_total"
  shows "g_auroc_edge_type (snd (per_relation lib edge_type_total probs labels rels g)) i
         = g_auroc_edge_type g i"
proof (induction rels arbitrary: g)
  case Nil
  show ?case by simp
next
  case (Cons j rest)
  show ?case
  proof (cases "j = i")
    case True
    then show ?thesis
      by (simp add: per_relation_skip [OF assms] Cons.IH)
  next
    case False
    then show ?thesis
      unfolding per_relation_Cons
      by (simp add: Cons.IH split: sum.splits option.splits)
  qed
qed

text \<open>
  C5. The loop over the relations skips a relation \<open>i\<close> that no evaluated edge has, and leaves
  its entry of \<open>auroc_edge_type\<close> as it is; the metric is applied only to the non-empty
  selections of the other relations: two metric functions that agree on all non-empty
  arguments give the same run of the loop.
\<close>

theorem per_relation_never_on_empty_selection:
  "(int i \<notin> set edge_type_total \<longrightarrow>
      per_relation lib edge_type_total probs labels (i # rest) g
        = per_relation lib edge_type_total probs labels rest g
    \<and> g_auroc_edge_type (snd (per_relation lib edge_type_total probs labels rels g)) i
        = g_auroc_edge_type g i)
   \<and> ((\<forall>ls ps. ls \<noteq> [] \<and> ps \<noteq> [] \<longrightarrow> roc_auc_score lib ls ps = roc_auc_score lib' ls ps) \<longrightarrow>
      per_relation lib edge_type_total probs labels rels g
        = per_relation lib' edge_type_total probs labels rels g)"
proof (intro conjI impI)
  assume "int i \<notin> set edge_type_total"
  then show "per_relation lib edge_type_total probs labels (i # rest) g
        = per_relation lib edge_type_total probs labels rest g"
    by (rule per_relation_skip)
next
  assume "int i \<notin> set edge_type_total"
  then show "g_auroc_edge_type (snd (per_relation lib edge_type_total probs labels rels g)) i
        = g_auroc_edge_type g i"
    by (rule per_relation_entry_unchanged)
next
  assume "\<forall>ls ps. ls \<noteq> [] \<and> ps \<noteq> [] \<longrightarrow> roc_auc_score lib ls ps = roc_auc_score lib' ls ps"
  then show "per_relation lib edge_type_total probs labels rels g
        = per_relation lib' edge_type_total probs labels rels g"
    by (rule per_relation_nonempty_only)
qed


lemma per_relation_report_globals:
  "fst (per_relation example_library [0, 0, 0, 0] [1 / 2, 1 / 2, 1 / 2, 1 / 2] [1, 1, 1, 0] [0, 1]
          report_globals) = None
   \<and> g_auroc_edge_type (snd (per_relation example_library [0, 0, 0, 0] [1 / 2, 1 / 2, 1 / 2, 1 / 2]
          [1, 1, 1, 0] [0, 1] report_globals)) 0 = Some [1 / 2]
   \<and> g_auroc_edge_type (snd (per_relation example_library [0, 0, 0, 0] [1 / 2, 1 / 2, 1 / 2, 1 / 2]
          [1, 1, 1, 0] [0, 1] report_globals)) 1 = Some []"
proof -
  have roc: "roc_auc_score example_library = pairwise_auc"
    by (simp add: example_library_def)
  have d: "g_auroc_edge_type report_globals = [0 \<mapsto> [], 1 \<mapsto> []]"
    by (simp add: report_globals_def)
  show ?thesis
    by (simp add: per_relation_Cons mask_select_def and_then_def roc pairwise_auc_dense_batch d)
qed

theorem per_relation_never_on_empty_selection_witness:
  "int 1 \<notin> set [0, 0, 0, 0 :: int]
   \<and> per_relation example_library [0, 0, 0, 0] [1 / 2, 1 / 2, 1 / 2, 1 / 2] [1, 1, 1, 0] [1] report_globals
       = (None, report_globals)
   \<and> roc_auc_score example_library [] [] = Inl ValueError
   \<and> roc_auc_score lenient_library [] [] = Inr 0
   \<and> fst (per_relation lenient_library [0, 0, 0, 0] [1 / 2, 1 / 2, 1 / 2, 1 / 2] [1, 1, 1, 0] [0, 1]
          report_globals) = None
   \<and> g_auroc_edge_type (snd (per_relation lenient_library [0, 0, 0, 0] [1 / 2, 1 / 2, 1 / 2, 1 / 2]
          [1, 1, 1, 0] [0, 1] report_globals)) 0 = Some [1 / 2]
   \<and> g_auroc_edge_type (snd (per_relation lenient_library [0, 0, 0, 0] [1 / 2, 1 / 2, 1 / 2, 1 / 2]
          [1, 1, 1, 0] [0, 1] report_globals)) 1 = Some []"
proof -
  let ?ets = "[0, 0, 0, 0 :: int]" and ?probs = "[1 / 2, 1 / 2, 1 / 2, 1 / 2 :: real]"
    and ?labels = "[1, 1, 1, 0 :: real]"
  note inst = per_relation_never_on_empty_selection
    [of 1 ?ets example_library ?probs ?labels "[]" report_globals "[0, 1]" lenient_library]
  have absent: "int 1 \<notin> set ?ets" by simp
  have agree: "\<forall>ls ps. ls \<noteq> [] \<and> ps \<noteq> [] \<longrightarrow>
                 roc_auc_score example_library ls ps = roc_auc_score lenient_library ls ps"
    by (simp add: lenient_library_def example_library_def)
  have skip: "per_relation example_library ?ets ?probs ?labels [1] report_globals
              = per_relation example_library ?ets ?probs ?labels [] report_globals"
    using inst absent by blast
  have same: "per_relation example_library ?ets ?probs ?labels [0, 1] report_globals
              = per_relation lenient_library ?ets ?probs ?labels [0, 1] report_globals"
    using inst agree by blast
  have e1: "roc_auc_score example_library [] [] = Inl ValueError"
    by (simp add: example_library_def pairwise_auc_def)
  have e2: "roc_auc_score lenient_library [] [] = Inr 0"
    by (simp add: lenient_library_def)
  show ?thesis
    using absent skip e1 e2 per_relation_report_globals unfolding same by simp
qed

subsection \<open>Parameters\<close>

lemma per_relation_keeps_model:
  "g_model (snd (per_relation lib edge_type_total probs labels rels g)) = g_model g
   \<and> g_optimizer (snd (per_relation lib edge_type_total probs labels rels g)) = g_optimizer g"
proof (induction rels arbitrary: g)
  case Nil
  show ?case by simp
next
  case (Cons i rest)
  show ?case
    unfolding per_relation_Cons
    by (simp add: Cons.IH split: sum.splits option.splits)
qed

text \<open>
  C6. The validation step leaves the parameters of the model as they are, the weights of
  the two convolution layers and the relation weights \<open>w_rels\<close>, and the state of the
  optimiser too, on every batch and embedding, with or without the metrics by relation,
  and also when it raises.
\<close>

theorem validation_leaves_parameters_unchanged:
  "g_model (snd (validation lib batch emb evaluate_rel g)) = g_model g
   \<and> conv1 (g_model (snd (validation lib batch emb evaluate_rel g))) = conv1 (g_model g)
   \<and> conv2 (g_model (snd (validation lib batch emb evaluate_rel g))) = conv2 (g_model g)
   \<and> w_rels (g_model (snd (validation lib batch emb evaluate_rel g))) = w_rels (g_model g)
   \<and> g_optimizer (snd (validation lib batch emb evaluate_rel g)) = g_optimizer g"
proof -
  have "g_model (snd (validation lib batch emb evaluate_rel g)) = g_model g
        \<and> g_optimizer (snd (validation lib batch emb evaluate_rel g)) = g_optimizer g"
  proof (cases "link_metrics lib (g_model g) batch (data_val_mask batch) emb")
    case (Inl e)
    then show ?thesis by (simp add: validation_def)
  next
    case (Inr r)
    obtain loss auroc edge_index_total edge_type_total probs labels
      where r: "r = ((loss, auroc), edge_index_total, edge_type_total, probs, labels)"
      by (metis prod.exhaust)
    show ?thesis
      using Inr r
      by (simp add: validation_def Let_def per_relation_keeps_model)
  qed
  then show ?thesis by simp
qed

lemma train_updates_parameters_example:
  "w_rels (g_model (snd (train example_library dense_batch small_embedding example_globals)))
     = \<lparr>ncols = 2, rws = [[0, 0], [1 / 2, - 1 / 2]]\<rparr>
   \<and> w_rels (g_model example_globals) = \<lparr>ncols = 2, rws = [[0, 0], [1, - 1]]\<rparr>"
proof -
  have m: "g_model example_globals = small_model" and t: "data_train_mask dense_batch = [True, True, True]"
    by (simp_all add: example_globals_def dense_batch_def)
  show ?thesis
    by (simp add: train_def m t link_metrics_dense_batch split: prod.splits)
       (simp add: example_library_def small_model_def map_tensor_def)
qed

subsection \<open>Loss\<close>

lemma clamped_log_bounds: "- 100 \<le> clamped_log p" "p \<le> 1 \<Longrightarrow> clamped_log p \<le> 0"
proof -
  show "- 100 \<le> clamped_log p"
    by (simp add: clamped_log_def)
  show "clamped_log p \<le> 0" if "p \<le> 1"
  proof (cases "p \<le> 0")
    case True
    then show ?thesis by (simp add: clamped_log_def)
  next
    case False
    then have "ln p \<le> 0" using that by simp
    with False show ?thesis by (simp add: clamped_log_def)
  qed
qed

text \<open>A term of the loss lies between 0 and 100: each logarithm is clamped at \<open>-100\<close>.\<close>

lemma bce_term_bounds:
  assumes "0 \<le> p" and "p \<le> 1" and "0 \<le> y" and "y \<le> 1"
  shows "0 \<le> bce_term p y \<and> bce_term p y \<le> 100"
proof -
  let ?a = "clamped_log p" and ?b = "clamped_log (1 - p)"
  have a: "- 100 \<le> ?a" "?a \<le> 0" and b: "- 100 \<le> ?b" "?b \<le> 0"
    using assms clamped_log_bounds [of p] clamped_log_bounds [of "1 - p"] by simp_all
  have y: "0 \<le> 1 - y"
    using assms(4) by simp
  define u v where "u = y * ?a" and "v = (1 - y) * ?b"
  have "u \<le> 0" and "v \<le> 0"
    unfolding u_def v_def using assms a b by (simp_all add: mult_nonneg_nonpos)
  moreover have "y * (- 100) \<le> u"
    unfolding u_def by (rule mult_left_mono [OF a(1) assms(3)])
  moreover have "(1 - y) * (- 100) \<le> v"
    unfolding v_def by (rule mult_left_mono [OF b(1) y])
  ultimately have "0 \<le> - (u + v)" and "- (u + v) \<le> 100"
    by simp_all
  then show ?thesis
    unfolding bce_term_def u_def v_def by simp
qed

lemma mean_bounds:
  fixes ts :: "real list"
  assumes "\<forall>t \<in> set ts. 0 \<le> t \<and> t \<le> c" and "ts \<noteq> []"
  shows "0 \<le> sum_list ts / real (length ts) \<and> sum_list ts / real (length ts) \<le> c"
proof -
  have "0 \<le> sum_list ts \<and> sum_list ts \<le> c * real (length ts)"
    using assms(1) by (induction ts) (auto simp: algebra_simps)
  moreover have "0 < real (length ts)"
    using assms(2) by simp
  ultimately show ?thesis
    by (simp add: pos_divide_le_eq)
qed

lemma unit_prob_num_of:
  assumes "list_all unit_prob probs" and "p \<in> set (map num_of probs)"
  shows "0 \<le> p \<and> p \<le> 1"
proof -
  from assms(2) obtain q where q: "q \<in> set probs" "p = num_of q" by auto
  with assms(1) have "unit_prob q" by (simp add: list_all_iff)
  with q(2) show ?thesis by (cases q) simp_all
qed

lemma binary_cross_entropy_bounded:
  assumes "binary_cross_entropy probs labels = Inr loss"
    and "labels \<noteq> []" and "\<forall>y \<in> set labels. 0 \<le> y \<and> y \<le> 1"
  shows "finite_nonneg loss"
proof -
  let ?ts = "map2 bce_term (map num_of probs) labels"
  from assms(1) have len: "length probs = length labels"
    and range: "list_all unit_prob probs"
    by (auto simp: binary_cross_entropy_def split: if_splits)
  from len assms(2) have ne: "probs \<noteq> []" by auto
  have loss: "loss = overflow (sum_list ?ts / real (length probs))"
    using assms(1) len range ne by (simp add: binary_cross_entropy_def)
  have "\<forall>t \<in> set ?ts. 0 \<le> t \<and> t \<le> 100"
  proof
    fix t assume "t \<in> set ?ts"
    then obtain p y where t: "t = bce_term p y" and "(p, y) \<in> set (zip (map num_of probs) labels)"
      by auto
    then have "p \<in> set (map num_of probs)" and "y \<in> set labels"
      by (auto dest: set_zip_leftD set_zip_rightD)
    then show "0 \<le> t \<and> t \<le> 100"
      unfolding t using unit_prob_num_of [OF range] assms(3) by (intro bce_term_bounds) auto
  qed
  moreover have "?ts \<noteq> []" and "length ?ts = length probs"
    using ne len by auto
  ultimately have m: "0 \<le> sum_list ?ts / real (length probs)"
    "sum_list ?ts / real (length probs) \<le> 100"
    using mean_bounds [of ?ts 100] by simp_all
  have "(100::real) \<le> float32_max"
    by (simp add: float32_max_def)
  with m have "\<bar>sum_list ?ts / real (length probs)\<bar> \<le> float32_max"
    by simp
  then have "loss = Num (sum_list ?ts / real (length probs))"
    unfolding loss by (rule overflow_in_range)
  with m show ?thesis by simp
qed

text \<open>
  The sigmoid of the score 50 is the float 1; against the label 0 the logarithm of
  \<open>1 - 1\<close> is minus infinity, and the loss is 100 by the clamp.
\<close>

lemma float_sigmoid_50: "float_sigmoid 50 = 1"
proof -
  have "(2::real) \<le> exp 1"
    using exp_ge_add_one_self [of "1::real"] by simp
  then have "(2::real) ^ 50 \<le> exp 1 ^ 50"
    by (intro power_mono) simp_all
  also have "exp (1::real) ^ 50 = exp 50"
    using exp_of_nat_mult [of 50 "1::real"] by simp
  finally have "(2::real) ^ 50 \<le> exp 50" .
  moreover have "(2::real) ^ 24 \<le> 2 ^ 50"
    by simp
  ultimately have big: "(2::real) ^ 24 \<le> exp 50"
    by linarith
  have "1 / exp (50::real) \<le> 1 / 2 ^ 24"
    using big by (intro divide_left_mono) simp_all
  then have small: "exp (- 50 :: real) \<le> 1 / 2 ^ 24"
    by (simp add: exp_minus inverse_eq_divide)
  moreover have "(1::real) / 2 ^ 24 \<le> float32_max"
    by (simp add: float32_max_def)
  ultimately have "\<not> float32_max < exp (- 50 :: real)"
    by linarith
  with small show ?thesis
    by (simp add: float_sigmoid_def)
qed

lemma binary_cross_entropy_saturated:
  "binary_cross_entropy [torch_sigmoid (Num 50)] [0] = Inr (Num 100)"
  by (simp add: float_sigmoid_50 binary_cross_entropy_def bce_term_def clamped_log_def
      overflow_def float32_max_def)

lemma get_metrics_loss_bounded:
  assumes "get_metrics model emb edge_index edge_type labels = Inr (loss, probs, labels')"
    and "labels \<noteq> []" and "\<forall>y \<in> set labels. 0 \<le> y \<and> y \<le> 1"
  shows "finite_nonneg loss"
proof -
  from assms(1) obtain ps where "binary_cross_entropy ps labels = Inr loss"
    by (auto simp: get_metrics_def and_then_def split: sum.splits)
  then show ?thesis using assms(2,3) by (rule binary_cross_entropy_bounded)
qed

text \<open>
  A step that runs to its end has called the metric on the link labels; when the metric
  raises on no labels, the labels of such a step are not empty.
\<close>

lemma link_metrics_loss_bounded:
  assumes "link_metrics lib model batch msk emb
             = Inr ((loss, auroc), edge_index_total, edge_type_total, probs, labels)"
    and roc: "\<forall>probs a. roc_auc_score lib [] probs \<noteq> Inr a"
  shows "finite_nonneg loss"
proof -
  from assms(1) obtain total types link_labels where
    le: "link_edges lib batch msk = Inr (total, types, link_labels)"
    by (auto simp: link_metrics_def and_then_def split: sum.splits)
  with assms(1) obtain ps ls where
    gm: "get_metrics model emb total types link_labels = Inr (loss, ps, ls)"
    by (auto simp: link_metrics_def and_then_def split: sum.splits prod.splits)
  from gm have ls: "ls = link_labels"
    by (auto simp: get_metrics_def and_then_def split: sum.splits)
  from assms(1) le gm have "\<exists>a. roc_auc_score lib ls ps = Inr a"
    by (auto simp: link_metrics_def and_then_def split: sum.splits)
  with roc ls have ne: "link_labels \<noteq> []"
    by auto
  from link_edges_Inr [OF le] obtain pos neg where
    "total = pos @ neg"
    and labels: "link_labels = replicate (length pos) 1 @ replicate (length neg) 0"
    by blast
  then have "\<forall>y \<in> set link_labels. 0 \<le> y \<and> y \<le> 1"
    by auto
  with gm ne show ?thesis
    by (intro get_metrics_loss_bounded)
qed

lemma train_completed:
  assumes "train lib batch emb g = (None, g')"
  shows "\<exists>loss auroc total types probs labels opt model.
           link_metrics lib (g_model g) batch (data_train_mask batch) emb
             = Inr ((loss, auroc), total, types, probs, labels)
         \<and> g' = g\<lparr>g_loss_epoch_train := g_loss_epoch_train g @ [loss],
                   g_auroc_epoch_train := g_auroc_epoch_train g @ [auroc],
                   g_optimizer := opt, g_model := model\<rparr>"
  using assms
  by (auto simp: train_def split: sum.splits prod.splits)

lemma validation_completed:
  assumes "validation lib batch emb False g = (None, g')"
  shows "\<exists>loss auroc total types probs labels.
           link_metrics lib (g_model g) batch (data_val_mask batch) emb
             = Inr ((loss, auroc), total, types, probs, labels)
         \<and> g' = g\<lparr>g_loss_epoch_val := g_loss_epoch_val g @ [loss],
                   g_auroc_epoch_val := g_auroc_epoch_val g @ [auroc]\<rparr>"
  using assms
  by (auto simp: validation_def split: sum.splits prod.splits)

lemma batch_losses:
  assumes t: "train lib batch emb g = (None, g1)"
    and v: "validation lib batch emb False g1 = (None, g2)"
    and roc: "\<forall>probs a. roc_auc_score lib [] probs \<noteq> Inr a"
  shows "\<exists>lt lv. finite_nonneg lt \<and> finite_nonneg lv
           \<and> g_loss_epoch_train g2 = g_loss_epoch_train g @ [lt]
           \<and> g_loss_epoch_val g2 = g_loss_epoch_val g @ [lv]
           \<and> g_loss_train_total g2 = g_loss_train_total g
           \<and> g_loss_val_total g2 = g_loss_val_total g"
proof -
  from train_completed [OF t] obtain lt auroc total types probs labels opt model where
    lm: "link_metrics lib (g_model g) batch (data_train_mask batch) emb
             = Inr ((lt, auroc), total, types, probs, labels)"
    and g1: "g1 = g\<lparr>g_loss_epoch_train := g_loss_epoch_train g @ [lt],
                   g_auroc_epoch_train := g_auroc_epoch_train g @ [auroc],
                   g_optimizer := opt, g_model := model\<rparr>"
    by blast
  from validation_completed [OF v] obtain lv auroc' total' types' probs' labels' where
    lm': "link_metrics lib (g_model g1) batch (data_val_mask batch) emb
             = Inr ((lv, auroc'), total', types', probs', labels')"
    and g2: "g2 = g1\<lparr>g_loss_epoch_val := g_loss_epoch_val g1 @ [lv],
                   g_auroc_epoch_val := g_auroc_epoch_val g1 @ [auroc']\<rparr>"
    by blast
  have "finite_nonneg lt" and "finite_nonneg lv"
    using link_metrics_loss_bounded [OF lm roc] link_metrics_loss_bounded [OF lm' roc]
    by simp_all
  then show ?thesis
    unfolding g2 g1 by simp
qed

lemma epoch_batches_losses:
  assumes "epoch_batches lib batches g = (None, g')"
    and roc: "\<forall>probs a. roc_auc_score lib [] probs \<noteq> Inr a"
  shows "\<exists>lt lv. list_all finite_nonneg lt \<and> list_all finite_nonneg lv
           \<and> length lt = length batches \<and> length lv = length batches
           \<and> g_loss_epoch_train g' = g_loss_epoch_train g @ lt
           \<and> g_loss_epoch_val g' = g_loss_epoch_val g @ lv
           \<and> g_loss_train_total g' = g_loss_train_total g
           \<and> g_loss_val_total g' = g_loss_val_total g"
  using assms(1)
proof (induction batches arbitrary: g)
  case Nil
  then show ?case by simp
next
  case (Cons batch rest)
  from Cons.prems(1) obtain emb g1 g2 where
    t: "train lib batch emb g = (None, g1)"
    and v: "validation lib batch emb False g1 = (None, g2)"
    and r: "epoch_batches lib rest g2 = (None, g')"
    by (auto split: sum.splits prod.splits option.splits)
  from batch_losses [OF t v roc] obtain a b where
    ab: "finite_nonneg a" "finite_nonneg b"
    "g_loss_epoch_train g2 = g_loss_epoch_train g @ [a]"
    "g_loss_epoch_val g2 = g_loss_epoch_val g @ [b]"
    "g_loss_train_total g2 = g_loss_train_total g"
    "g_loss_val_total g2 = g_loss_val_total g"
    by auto
  from Cons.IH [OF r] obtain lt lv where
    l: "list_all finite_nonneg lt" "list_all finite_nonneg lv"
    "length lt = length rest" "length lv = length rest"
    "g_loss_epoch_train g' = g_loss_epoch_train g2 @ lt"
    "g_loss_epoch_val g' = g_loss_epoch_val g2 @ lv"
    "g_loss_train_total g' = g_loss_train_total g2"
    "g_loss_val_total g' = g_loss_val_total g2"
    by auto
  have "list_all finite_nonneg (a # lt) \<and> list_all finite_nonneg (b # lv)
           \<and> length (a # lt) = length (batch # rest) \<and> length (b # lv) = length (batch # rest)
           \<and> g_loss_epoch_train g' = g_loss_epoch_train g @ (a # lt)
           \<and> g_loss_epoch_val g' = g_loss_epoch_val g @ (b # lv)
           \<and> g_loss_train_total g' = g_loss_train_total g
           \<and> g_loss_val_total g' = g_loss_val_total g"
    using ab l by simp
  then show ?case by blast
qed

text \<open>The mean of losses between 0 and 100 is a number between 0 and 100.\<close>

lemma finite_nonneg_num_of:
  assumes "list_all finite_nonneg xs"
  shows "NaN \<notin> set xs \<and> PInf \<notin> set xs \<and> NInf \<notin> set xs
       \<and> (\<forall>t \<in> set (map num_of xs). 0 \<le> t \<and> t \<le> 100)"
  using assms
proof (induction xs)
  case Nil
  show ?case by simp
next
  case (Cons x xs)
  then show ?case
    by (cases x) auto
qed

lemma np_mean_bounded:
  assumes "list_all finite_nonneg xs" and "xs \<noteq> []"
  shows "finite_nonneg (np_mean xs)"
proof -
  from finite_nonneg_num_of [OF assms(1)] have
    no: "NaN \<notin> set xs" "PInf \<notin> set xs" "NInf \<notin> set xs"
    and range: "\<forall>t \<in> set (map num_of xs). 0 \<le> t \<and> t \<le> 100"
    by simp_all
  from mean_bounds [OF range] assms(2) have
    "0 \<le> sum_list (map num_of xs) / real (length xs)"
    "sum_list (map num_of xs) / real (length xs) \<le> 100"
    by simp_all
  then show ?thesis
    using no assms(2) by (simp add: np_mean_def)
qed

lemma induced_subgraph_example: "induced_subgraph 2 example_graph = dense_batch"
  by (simp add: induced_subgraph_def example_graph_def dense_batch_def)

lemma get_embeddings_dense_batch:
  assumes "conv1 model = plain_conv" and "conv2 model = plain_conv"
  shows "get_embeddings model dense_batch = Inr log_half_embedding"
  using assms
  by (simp add: get_embeddings_def forward_def and_then_def plain_conv_def dense_batch_def
      map_tensor_def relu_def log_softmax_row_def log_half_embedding_def)

lemma DistMult_log_half:
  assumes "w_rels model = \<lparr>ncols = 2, rws = [[0, 0], r]\<rparr>"
  shows "DistMult log_half_embedding [(0, 0), (0, 1), (1, 0), (1, 1)] [0, 0, 0, 0] model
         = Inr [Num (1 / 2), Num (1 / 2), Num (1 / 2), Num (1 / 2)]"
  using assms
  by (simp add: DistMult_def and_then_def index_rows_def norm_index_def log_half_embedding_def
      floats_def tmul_def broadcast_dim_def nrows_def expand_def sum_dim1_def sigmoid_def
      float_sigmoid_def overflow_def float32_max_def)

lemma link_metrics_log_half:
  assumes "w_rels model = \<lparr>ncols = 2, rws = [[0, 0], r]\<rparr>"
  shows "link_metrics example_library model dense_batch [True, True, True] log_half_embedding
   = Inr ((Num (ln 2), 1 / 2), [(0, 0), (0, 1), (1, 0), (1, 1)], [0, 0, 0, 0],
          [1 / 2, 1 / 2, 1 / 2, 1 / 2], [1, 1, 1, 0])"
proof -
  have roc: "roc_auc_score example_library = pairwise_auc"
    and ap: "average_precision_score example_library [1, 1, 1, 0] [1 / 2, 1 / 2, 1 / 2, 1 / 2] = Inr 0"
    by (simp_all add: example_library_def)
  have gm: "get_metrics model log_half_embedding [(0, 0), (0, 1), (1, 0), (1, 1)] [0, 0, 0, 0] [1, 1, 1, 0]
   = Inr (Num (ln 2), [1 / 2, 1 / 2, 1 / 2, 1 / 2], [1, 1, 1, 0])"
    by (simp add: get_metrics_def and_then_def DistMult_log_half [OF assms] binary_cross_entropy_def
      bce_term_half overflow_ln_2)
  show ?thesis
    by (simp add: link_metrics_def and_then_def link_edges_dense_batch gm
        roc ap pairwise_auc_dense_batch)
qed

lemma run_epoch_losses:
  assumes "run_epoch lib graph epoch g = (None, g')"
    and "data_loader lib graph epoch \<noteq> []"
    and roc: "\<forall>probs a. roc_auc_score lib [] probs \<noteq> Inr a"
  shows "list_all finite_nonneg (g_loss_epoch_train g')
       \<and> list_all finite_nonneg (g_loss_epoch_val g')
       \<and> (\<exists>a b. g_loss_train_total g' = g_loss_train_total g @ [a] \<and> finite_nonneg a
                \<and> g_loss_val_total g' = g_loss_val_total g @ [b] \<and> finite_nonneg b)"
proof -
  let ?g0 = "g\<lparr>g_loss_epoch_train := [], g_loss_epoch_val := [],
                 g_auroc_epoch_train := [], g_auroc_epoch_val := []\<rparr>"
  from assms(1) obtain g1 where
    e: "epoch_batches lib (data_loader lib graph epoch) ?g0 = (None, g1)"
    and g': "g' = g1\<lparr>g_loss_train_total := g_loss_train_total g1 @ [np_mean (g_loss_epoch_train g1)],
                     g_auroc_train_total := g_auroc_train_total g1 @ [np_mean (map Num (g_auroc_epoch_train g1))],
                     g_loss_val_total := g_loss_val_total g1 @ [np_mean (g_loss_epoch_val g1)],
                     g_auroc_val_total := g_auroc_val_total g1 @ [np_mean (map Num (g_auroc_epoch_val g1))]\<rparr>"
    by (auto simp: run_epoch_def split: prod.splits option.splits)
  from epoch_batches_losses [OF e roc] obtain lt lv where
    good: "list_all finite_nonneg lt" "list_all finite_nonneg lv"
    and len: "length lt = length (data_loader lib graph epoch)"
             "length lv = length (data_loader lib graph epoch)"
    and lists: "g_loss_epoch_train g1 = lt" "g_loss_epoch_val g1 = lv"
    and totals: "g_loss_train_total g1 = g_loss_train_total g"
                "g_loss_val_total g1 = g_loss_val_total g"
    by auto
  from len assms(2) have ne: "lt \<noteq> []" "lv \<noteq> []" by auto
  have a: "finite_nonneg (np_mean lt)" and b: "finite_nonneg (np_mean lv)"
    using np_mean_bounded [OF good(1) ne(1)] np_mean_bounded [OF good(2) ne(2)] by simp_all
  have "g_loss_train_total g' = g_loss_train_total g @ [np_mean lt]"
    and "g_loss_val_total g' = g_loss_val_total g @ [np_mean lv]"
    unfolding g' by (simp_all add: lists totals)
  moreover have "list_all finite_nonneg (g_loss_epoch_train g')"
    and "list_all finite_nonneg (g_loss_epoch_val g')"
    unfolding g' using good by (simp_all add: lists)
  ultimately show ?thesis using a b by blast
qed

lemma training_loop_losses:
  assumes "training_loop lib graph epochs g = (None, g')"
    and "\<forall>epoch \<in> set epochs. data_loader lib graph epoch \<noteq> []"
    and roc: "\<forall>probs a. roc_auc_score lib [] probs \<noteq> Inr a"
  shows "\<exists>lt lv. g_loss_train_total g' = g_loss_train_total g @ lt
               \<and> g_loss_val_total g' = g_loss_val_total g @ lv
               \<and> length lt = length epochs \<and> length lv = length epochs
               \<and> list_all finite_nonneg lt \<and> list_all finite_nonneg lv"
  using assms(1,2)
proof (induction epochs arbitrary: g)
  case Nil
  then show ?case by simp
next
  case (Cons epoch rest)
  from Cons.prems(1) obtain g1 where
    e: "run_epoch lib graph epoch g = (None, g1)"
    and r: "training_loop lib graph rest g1 = (None, g')"
    by (auto split: prod.splits option.splits)
  have ne: "data_loader lib graph epoch \<noteq> []"
    and rest: "\<forall>epoch \<in> set rest. data_loader lib graph epoch \<noteq> []"
    using Cons.prems(2) by simp_all
  from run_epoch_losses [OF e ne roc] obtain a b where
    ab: "g_loss_train_total g1 = g_loss_train_total g @ [a]" "finite_nonneg a"
        "g_loss_val_total g1 = g_loss_val_total g @ [b]" "finite_nonneg b"
    by blast
  from Cons.IH [OF r rest] obtain lt lv where
    l: "g_loss_train_total g' = g_loss_train_total g1 @ lt"
       "g_loss_val_total g' = g_loss_val_total g1 @ lv"
       "length lt = length rest" "length lv = length rest"
       "list_all finite_nonneg lt" "list_all finite_nonneg lv"
    by auto
  have "g_loss_train_total g' = g_loss_train_total g @ (a # lt)
      \<and> g_loss_val_total g' = g_loss_val_total g @ (b # lv)
      \<and> length (a # lt) = length (epoch # rest) \<and> length (b # lv) = length (epoch # rest)
      \<and> list_all finite_nonneg (a # lt) \<and> list_all finite_nonneg (b # lv)"
    using ab l by simp
  then show ?case by blast
qed

lemma data_loader_example: "data_loader example_library example_graph epoch = [dense_batch]"
  by (simp add: example_library_def induced_subgraph_example)

lemma run_epoch_dense_batch:
  assumes c: "conv1 (g_model g) = plain_conv" "conv2 (g_model g) = plain_conv"
    and w: "w_rels (g_model g) = \<lparr>ncols = 2, rws = [[0, 0], r]\<rparr>"
  shows "\<exists>g'. run_epoch example_library example_graph epoch g = (None, g')
           \<and> g_loss_train_total g' = g_loss_train_total g @ [Num (ln 2)]
           \<and> g_loss_val_total g' = g_loss_val_total g @ [Num (ln 2)]
           \<and> conv1 (g_model g') = plain_conv \<and> conv2 (g_model g') = plain_conv
           \<and> w_rels (g_model g') = \<lparr>ncols = 2, rws = [[0, 0], map (\<lambda>v. v / 2) r]\<rparr>"
proof -
  let ?g0 = "g\<lparr>g_loss_epoch_train := [], g_loss_epoch_val := [],
                 g_auroc_epoch_train := [], g_auroc_epoch_val := []\<rparr>"
  let ?m1 = "(g_model g)\<lparr>w_rels := map_tensor (map (\<lambda>v. v / 2)) (w_rels (g_model g))\<rparr>"
  let ?g1 = "?g0\<lparr>g_loss_epoch_train := g_loss_epoch_train ?g0 @ [Num (ln 2)],
                  g_auroc_epoch_train := g_auroc_epoch_train ?g0 @ [1 / 2],
                  g_optimizer := Suc (g_optimizer ?g0),
                  g_model := ?m1\<rparr>"
  let ?g2 = "?g1\<lparr>g_loss_epoch_val := g_loss_epoch_val ?g1 @ [Num (ln 2)],
                  g_auroc_epoch_val := g_auroc_epoch_val ?g1 @ [1 / 2]\<rparr>"
  have t: "data_train_mask dense_batch = [True, True, True]"
    and v: "data_val_mask dense_batch = [True, True, True]"
    by (simp_all add: dense_batch_def)
  have m0: "g_model ?g0 = g_model g" by simp
  have e: "get_embeddings (g_model ?g0) dense_batch = Inr log_half_embedding"
    unfolding m0 using c by (rule get_embeddings_dense_batch)
  have o: "optimizer_step example_library (g_optimizer ?g0) (g_model g) log_half_embedding
             [(0, 0), (0, 1), (1, 0), (1, 1)] [0, 0, 0, 0] [1, 1, 1, 0]
           = (Suc (g_optimizer ?g0), ?m1)"
    by (simp add: example_library_def)
  have tr: "train example_library dense_batch log_half_embedding ?g0 = (None, ?g1)"
    unfolding train_def m0 t link_metrics_log_half [OF w]
    by (simp only: sum.case prod.case o Let_def)
  have w1: "w_rels (g_model ?g1) = \<lparr>ncols = 2, rws = [[0, 0], map (\<lambda>v. v / 2) r]\<rparr>"
    using w by (simp add: map_tensor_def)
  have va: "validation example_library dense_batch log_half_embedding False ?g1 = (None, ?g2)"
    unfolding validation_def v link_metrics_log_half [OF w1]
    by (simp only: sum.case prod.case Let_def not_False_eq_True if_True)
  have eb: "epoch_batches example_library [dense_batch] ?g0 = (None, ?g2)"
    by (simp only: epoch_batches.simps e sum.case tr va prod.case option.case)
  have "run_epoch example_library example_graph epoch g
        = (None, ?g2\<lparr>g_loss_train_total := g_loss_train_total ?g2 @ [np_mean (g_loss_epoch_train ?g2)],
                     g_auroc_train_total := g_auroc_train_total ?g2 @ [np_mean (map Num (g_auroc_epoch_train ?g2))],
                     g_loss_val_total := g_loss_val_total ?g2 @ [np_mean (g_loss_epoch_val ?g2)],
                     g_auroc_val_total := g_auroc_val_total ?g2 @ [np_mean (map Num (g_auroc_epoch_val ?g2))]\<rparr>)"
    unfolding run_epoch_def data_loader_example eb by (simp only: prod.case option.case)
  then show ?thesis
    using c w by (simp add: np_mean_def map_tensor_def)
qed

lemma training_loop_example:
  "\<exists>g'. training_loop example_library example_graph [0..<2] example_globals = (None, g')
        \<and> g_loss_train_total g' = [Num (ln 2), Num (ln 2)]
        \<and> g_loss_val_total g' = [Num (ln 2), Num (ln 2)]"
proof -
  have c: "conv1 (g_model example_globals) = plain_conv" "conv2 (g_model example_globals) = plain_conv"
    and w: "w_rels (g_model example_globals) = \<lparr>ncols = 2, rws = [[0, 0], [1, - 1]]\<rparr>"
    and z: "g_loss_train_total example_globals = []" "g_loss_val_total example_globals = []"
    by (simp_all add: example_globals_def small_model_def)
  from run_epoch_dense_batch [OF c w, of 0] obtain g1 where
    g1: "run_epoch example_library example_graph 0 example_globals = (None, g1)"
      "g_loss_train_total g1 = [Num (ln 2)]" "g_loss_val_total g1 = [Num (ln 2)]"
      "conv1 (g_model g1) = plain_conv" "conv2 (g_model g1) = plain_conv"
      "w_rels (g_model g1) = \<lparr>ncols = 2, rws = [[0, 0], map (\<lambda>v. v / 2) [1, - 1]]\<rparr>"
    unfolding z by auto
  from run_epoch_dense_batch [OF g1(4,5,6), of "Suc 0"] obtain g2 where
    g2: "run_epoch example_library example_graph (Suc 0) g1 = (None, g2)"
      "g_loss_train_total g2 = [Num (ln 2), Num (ln 2)]"
      "g_loss_val_total g2 = [Num (ln 2), Num (ln 2)]"
    unfolding g1(2,3) by auto
  have u: "[0..<2] = [0, Suc 0]"
    by (simp add: upt_conv_Cons)
  have "training_loop example_library example_graph [0..<2] example_globals = (None, g2)"
    unfolding u by (simp add: g1(1) g2(1))
  with g2(2,3) show ?thesis by blast
qed

lemma pairwise_auc_no_labels: "pairwise_auc [] probs \<noteq> Inr a"
  by (simp add: pairwise_auc_def)

text \<open>
  C9. The training loop records for every epoch one training and one validation loss, the
  mean over the batches of the binary cross-entropy of the decoder's probabilities against
  the link labels, and each of them is finite, not negative and at most 100: it is a
  number, neither an infinity nor not-a-number, because the loss clamps each logarithm at
  \<open>-100\<close> and raises on a probability that is not-a-number. This holds of every run of the
  loop to its end, for every graph, model and initial state, with libraries that do what
  the notebook's do: \<^verbatim>\<open>roc_auc_score\<close> raises on no labels, and the sampler, which is
  created with \<^verbatim>\<open>num_steps = 32\<close>, yields a batch in every pass.
\<close>

theorem training_losses_are_finite_between_0_and_100:
  assumes "training_loop lib graph [0..<epochs] g = (None, g')"
    and "\<forall>probs a. roc_auc_score lib [] probs \<noteq> Inr a"
    and "\<forall>epoch < epochs. data_loader lib graph epoch \<noteq> []"
  shows "\<exists>lt lv. g_loss_train_total g' = g_loss_train_total g @ lt
               \<and> g_loss_val_total g' = g_loss_val_total g @ lv
               \<and> length lt = epochs \<and> length lv = epochs
               \<and> (\<forall>epoch < epochs. \<exists>a b. lt ! epoch = Num a \<and> 0 \<le> a \<and> a \<le> 100
                                        \<and> lv ! epoch = Num b \<and> 0 \<le> b \<and> b \<le> 100)"
proof -
  have "\<forall>epoch \<in> set [0..<epochs]. data_loader lib graph epoch \<noteq> []"
    using assms(3) by simp
  from training_loop_losses [OF assms(1) this assms(2)] obtain lt lv where
    l: "g_loss_train_total g' = g_loss_train_total g @ lt"
       "g_loss_val_total g' = g_loss_val_total g @ lv"
       "length lt = epochs" "length lv = epochs"
       "list_all finite_nonneg lt" "list_all finite_nonneg lv"
    by auto
  have "\<exists>a b. lt ! epoch = Num a \<and> 0 \<le> a \<and> a \<le> 100 \<and> lv ! epoch = Num b \<and> 0 \<le> b \<and> b \<le> 100"
    if "epoch < epochs" for epoch
  proof -
    have "finite_nonneg (lt ! epoch)" and "finite_nonneg (lv ! epoch)"
      using that l by (simp_all add: list_all_length)
    then show ?thesis
      by (cases "lt ! epoch"; cases "lv ! epoch") simp_all
  qed
  with l(1-4) show ?thesis by blast
qed

theorem training_losses_are_finite_between_0_and_100_witness:
  "\<exists>g'. training_loop example_library example_graph [0..<2] example_globals = (None, g')
        \<and> g_loss_train_total g' = [Num (ln 2), Num (ln 2)]
        \<and> g_loss_val_total g' = [Num (ln 2), Num (ln 2)]
        \<and> (\<exists>lt lv. g_loss_train_total g' = g_loss_train_total example_globals @ lt
               \<and> g_loss_val_total g' = g_loss_val_total example_globals @ lv
               \<and> length lt = 2 \<and> length lv = 2
               \<and> (\<forall>epoch < 2. \<exists>a b. lt ! epoch = Num a \<and> 0 \<le> a \<and> a \<le> 100
                                   \<and> lv ! epoch = Num b \<and> 0 \<le> b \<and> b \<le> 100))"
proof -
  from training_loop_example obtain g' where
    r: "training_loop example_library example_graph [0..<2] example_globals = (None, g')"
    and l: "g_loss_train_total g' = [Num (ln 2), Num (ln 2)]"
           "g_loss_val_total g' = [Num (ln 2), Num (ln 2)]"
    by blast
  have roc: "\<forall>probs a. roc_auc_score example_library [] probs \<noteq> Inr a"
    by (simp add: example_library_def pairwise_auc_no_labels)
  have h: "\<forall>epoch < 2. data_loader example_library example_graph epoch \<noteq> []"
    unfolding data_loader_example by simp
  note training_losses_are_finite_between_0_and_100 [OF r roc h]
  with r l show ?thesis by blast
qed

subsection \<open>The report\<close>

lemma per_relation_dense_batch:
  assumes "g_auroc_edge_type g 0 = Some values"
  shows "per_relation example_library [0, 0, 0, 0] [1 / 2, 1 / 2, 1 / 2, 1 / 2] [1, 1, 1, 0] [0..<2] g
         = (None, g\<lparr>g_auroc_edge_type := (g_auroc_edge_type g)(0 \<mapsto> values @ [1 / 2])\<rparr>)"
proof -
  have roc: "roc_auc_score example_library = pairwise_auc"
    by (simp add: example_library_def)
  have u: "[0..<2] = [0, 1]"
    by (simp add: upt_conv_Cons)
  show ?thesis
    unfolding u
    by (simp add: per_relation_Cons mask_select_def and_then_def roc pairwise_auc_dense_batch assms)
qed

text \<open>
  C7, the code against the claim. The graph has three nodes and four validation edges,
  three of relation 0 between the nodes 0 and 1 and the edge from node 1 to node 2 of
  relation 1, and the sampler yields the subgraph on the nodes 0 and 1. The report runs
  the validation step on the batches of the sampler only: the edge of relation 1 is in no
  batch, no value is recorded for relation 1, and its mean is not a number.
\<close>

theorem report_misses_validation_edge:
  "report example_library example_graph 10 example_globals = Inr [Num (1 / 2), NaN]
   \<and> data_loader example_library example_graph 10 = [dense_batch]
   \<and> g_num_relations example_globals = num_relations (data_edge_type example_graph)
   \<and> data_edge_index example_graph ! 3 = (1, 2)
   \<and> data_edge_type example_graph ! 3 = 1
   \<and> data_val_mask example_graph ! 3 = True
   \<and> (1, 2) \<notin> set (data_edge_index dense_batch)"
proof -
  let ?g0 = "example_globals\<lparr>g_auroc_edge_type :=
               (\<lambda>rel. if rel < g_num_relations example_globals then Some [] else None)\<rparr>"
  let ?g1 = "?g0\<lparr>g_loss_epoch_val := g_loss_epoch_val ?g0 @ [Num (ln 2)],
                  g_auroc_epoch_val := g_auroc_epoch_val ?g0 @ [1 / 2]\<rparr>"
  let ?g2 = "?g1\<lparr>g_auroc_edge_type := (g_auroc_edge_type ?g1)(0 \<mapsto> [] @ [1 / 2])\<rparr>"
  have l: "data_loader example_library example_graph 10 = [dense_batch]"
    by (simp add: example_library_def induced_subgraph_example)
  have m: "g_model ?g0 = small_model" and n: "g_num_relations ?g0 = 2"
    and v: "data_val_mask dense_batch = [True, True, True]"
    by (simp_all add: example_globals_def dense_batch_def)
  have e: "get_embeddings (g_model ?g0) dense_batch = Inr log_half_embedding"
    unfolding m by (rule get_embeddings_dense_batch) (simp_all add: small_model_def)
  have w: "w_rels small_model = \<lparr>ncols = 2, rws = [[0, 0], [1, - 1]]\<rparr>"
    by (simp add: small_model_def)
  have d: "g_auroc_edge_type ?g1 0 = Some []"
    by (simp add: example_globals_def)
  have va: "validation example_library dense_batch log_half_embedding True ?g0 = (None, ?g2)"
    unfolding validation_def m v link_metrics_log_half [OF w]
    by (simp only: sum.case prod.case Let_def not_True_eq_False if_False n
          per_relation_dense_batch [OF d])
  have rb: "report_batches example_library [dense_batch] ?g0 = (None, ?g2)"
    by (simp only: report_batches.simps e sum.case va prod.case option.case)
  have "report example_library example_graph 10 example_globals = Inr [Num (1 / 2), NaN]"
    unfolding report_def l rb
    by (simp add: example_globals_def upt_conv_Cons np_mean_def)
  moreover have "g_num_relations example_globals = num_relations (data_edge_type example_graph)"
    by (simp add: example_globals_def example_graph_def num_relations_def)
  moreover have "data_edge_index example_graph ! 3 = (1, 2)"
    "data_edge_type example_graph ! 3 = 1" "data_val_mask example_graph ! 3 = True"
    by (simp_all add: example_graph_def)
  moreover have "(1, 2) \<notin> set (data_edge_index dense_batch)"
    by (simp add: dense_batch_def)
  ultimately show ?thesis using l by (intro conjI)
qed

end
